theory Spec2Isabelle
  imports Main "HOL-Library.Char_ord" "HOL-Library.List_Lexorder"
begin

section \<open>Strings of the source\<close>

text \<open>
  Strings are byte strings: a Python \<open>str\<close> is modelled by its UTF-8 encoding, so the
  Chinese literals of the source are written as the bytes they encode to.
\<close>

definition nl :: string where
  "nl = [CHR 0x0A]"

text \<open>Python's \<open>sep.join(xs)\<close>.\<close>

fun join :: "string \<Rightarrow> string list \<Rightarrow> string" where
  "join sep [] = []"
| "join sep [x] = x"
| "join sep (x # y # ys) = x @ sep @ join sep (y # ys)"

text \<open>The error prefix of \<open>call_tool\<close> (UTF-8 of U+9519 U+8BEF, then colon and space).\<close>

definition err_prefix :: string where
  "err_prefix = [CHR 0xE9, CHR 0x94, CHR 0x99, CHR 0xE8, CHR 0xAF, CHR 0xAF] @ '': ''"

text \<open>The default error message of \<open>call_tool\<close> (UTF-8 of U+672A U+77E5 U+9519 U+8BEF).\<close>

definition unknown_error :: string where
  "unknown_error = [CHR 0xE6, CHR 0x9C, CHR 0xAA, CHR 0xE7, CHR 0x9F, CHR 0xA5,
                    CHR 0xE9, CHR 0x94, CHR 0x99, CHR 0xE8, CHR 0xAF, CHR 0xAF]"

section \<open>Transport adapters: the reply of \<open>tools/call\<close> (mcp\_client.py)\<close>

text \<open>
  A JSON-RPC reply as \<open>_send_request\<close> hands it to \<open>call_tool\<close>: \<open>None\<close> when the
  request failed or timed out, otherwise a dictionary that may carry the key \<open>result\<close>
  and the key \<open>error\<close>. An absent key is \<open>None\<close>. A content item is a dictionary read
  through \<open>item.get("type")\<close> and \<open>item.get("text", "")\<close>.
\<close>

record content_item =
  item_type :: "string option"
  item_text :: "string option"

record rpc_result =
  content :: "content_item list option"

record rpc_error =
  message :: "string option"

record rpc_response =
  resp_result :: "rpc_result option"
  resp_error :: "rpc_error option"

text \<open>
  The loop of \<open>call_tool\<close> that collects \<open>text_parts\<close>: the items whose type is
  \<open>"text"\<close>, each read with \<open>item.get("text", "")\<close>.
\<close>

fun text_parts :: "content_item list \<Rightarrow> string list" where
  "text_parts [] = []"
| "text_parts (item # items) =
     (if item_type item = Some ''text''
      then (case item_text item of None \<Rightarrow> [] | Some t \<Rightarrow> t) # text_parts items
      else text_parts items)"

text \<open>
  \<open>MCPStdioConnection.call_tool\<close>, \<open>MCPHttpConnection.call_tool\<close> and
  \<open>MCPSSEConnection.call_tool\<close>, each applied to the reply of its own
  \<open>_send_request("tools/call", ...)\<close>. \<open>dumps\<close> is \<open>json.dumps\<close> on the content list.
\<close>

definition stdio_call_tool :: "(content_item list \<Rightarrow> string) \<Rightarrow> rpc_response option \<Rightarrow> string option" where
  "stdio_call_tool dumps response =
     (case response of
        None \<Rightarrow> None
      | Some r \<Rightarrow>
          (case resp_result r of
             Some res \<Rightarrow>
               (let c = (case content res of None \<Rightarrow> [] | Some c \<Rightarrow> c);
                    tp = text_parts c
                in Some (if tp \<noteq> [] then join nl tp else dumps c))
           | None \<Rightarrow>
               (case resp_error r of
                  Some e \<Rightarrow> Some (err_prefix @ (case message e of None \<Rightarrow> unknown_error | Some m \<Rightarrow> m))
                | None \<Rightarrow> None)))"

definition http_call_tool :: "(content_item list \<Rightarrow> string) \<Rightarrow> rpc_response option \<Rightarrow> string option" where
  "http_call_tool dumps response =
     (case response of
        None \<Rightarrow> None
      | Some r \<Rightarrow>
          (case resp_result r of
             Some res \<Rightarrow>
               (let c = (case content res of None \<Rightarrow> [] | Some c \<Rightarrow> c);
                    tp = text_parts c
                in Some (if tp \<noteq> [] then join nl tp else dumps c))
           | None \<Rightarrow>
               (case resp_error r of
                  Some e \<Rightarrow> Some (err_prefix @ (case message e of None \<Rightarrow> unknown_error | Some m \<Rightarrow> m))
                | None \<Rightarrow> None)))"

definition sse_call_tool :: "(content_item list \<Rightarrow> string) \<Rightarrow> rpc_response option \<Rightarrow> string option" where
  "sse_call_tool dumps response =
     (case response of
        None \<Rightarrow> None
      | Some r \<Rightarrow>
          (case resp_result r of
             Some res \<Rightarrow>
               (let c = (case content res of None \<Rightarrow> [] | Some c \<Rightarrow> c);
                    tp = text_parts c
                in Some (if tp \<noteq> [] then join nl tp else dumps c))
           | None \<Rightarrow>
               (case resp_error r of
                  Some e \<Rightarrow> Some (err_prefix @ (case message e of None \<Rightarrow> unknown_error | Some m \<Rightarrow> m))
                | None \<Rightarrow> None)))"

section \<open>The Gemini conversation (gemini\_proxy\_server.py)\<close>

text \<open>
  Payloads the engine copies through without looking inside (tool arguments, tool
  results) are JSON values.
\<close>

datatype json = JNull | JBool bool | JNum int | JStr string | JList "json list"
  | JDict "(string \<times> json) list"

text \<open>
  A part of a message is a dictionary read through the keys \<open>text\<close>, \<open>thought\<close>,
  \<open>functionCall\<close>, \<open>functionResponse\<close> and \<open>thoughtSignature\<close>; an absent key is
  \<open>None\<close>, and \<open>p_thought\<close> is the truth value of \<open>part.get('thought')\<close>. The source
  guards every access with \<open>isinstance(part, dict)\<close>, so a part that is no dictionary
  is a value of its own.
\<close>

record function_call =
  fc_name :: "string option"
  fc_args :: "json option"

record function_response =
  fr_name :: "string option"
  fr_response :: "json option"

record part_dict =
  p_text :: "string option"
  p_thought :: bool
  p_functionCall :: "function_call option"
  p_functionResponse :: "function_response option"
  p_thoughtSignature :: "string option"

datatype part = Part part_dict | NonDictPart json

datatype gcontent = Content (role: "string option") (parts: "part list option")
  | NonDictContent json

text \<open>The placeholder \<open>{'result': <call complete>}\<close> (UTF-8 of U+8C03 U+7528 U+5B8C U+6BD5).\<close>

definition call_complete :: string where
  "call_complete = [CHR 0xE8, CHR 0xB0, CHR 0x83, CHR 0xE7, CHR 0x94, CHR 0xA8,
                    CHR 0xE5, CHR 0xAE, CHR 0x8C, CHR 0xE6, CHR 0xAF, CHR 0x95]"

definition placeholder_response :: json where
  "placeholder_response = JDict [(''result'', JStr call_complete)]"

text \<open>\<open>content.get('parts', [])\<close>.\<close>

definition get_parts :: "part list option \<Rightarrow> part list" where
  "get_parts ps = (case ps of None \<Rightarrow> [] | Some xs \<Rightarrow> xs)"

text \<open>\<open>isinstance(p, dict) and 'functionResponse' in p\<close>.\<close>

fun is_function_response_part :: "part \<Rightarrow> bool" where
  "is_function_response_part (Part d) = (p_functionResponse d \<noteq> None)"
| "is_function_response_part (NonDictPart j) = False"

text \<open>
  The test of both loops of \<open>_replace_old_tool_results\<close>: a dictionary of role
  \<open>user\<close>; \<open>has_function_response\<close> adds that some part carries a
  \<open>functionResponse\<close>.
\<close>

fun is_user_dict :: "gcontent \<Rightarrow> bool" where
  "is_user_dict (Content r ps) = (r = Some ''user'')"
| "is_user_dict (NonDictContent j) = False"

fun has_function_response :: "gcontent \<Rightarrow> bool" where
  "has_function_response (Content r ps) =
     (r = Some ''user'' \<and> list_ex is_function_response_part (get_parts ps))"
| "has_function_response (NonDictContent j) = False"

text \<open>
  The first loop, \<open>for i in range(len(contents) - 1, original_contents_length - 1, -1)\<close>
  with its \<open>break\<close>: \<open>scan_down cs n0 k\<close> visits the indices \<open>k - 1\<close> down to \<open>n0\<close>.
  \<open>None\<close> is the source's \<open>-1\<close>.
\<close>

fun scan_down :: "gcontent list \<Rightarrow> nat \<Rightarrow> nat \<Rightarrow> nat option" where
  "scan_down cs n0 0 = None"
| "scan_down cs n0 (Suc i) =
     (if i < n0 then None
      else if has_function_response (cs ! i) then Some i
      else scan_down cs n0 i)"

definition last_function_response_index :: "gcontent list \<Rightarrow> nat \<Rightarrow> nat option" where
  "last_function_response_index cs n0 = scan_down cs n0 (length cs)"

text \<open>
  The body of the second loop on one message: every part with a \<open>functionResponse\<close>
  gets \<open>part['functionResponse']['response'] = {'result': <call complete>}\<close>.
\<close>

fun blank_part :: "part \<Rightarrow> part" where
  "blank_part (Part d) =
     (case p_functionResponse d of
        None \<Rightarrow> Part d
      | Some fr \<Rightarrow> Part (d\<lparr>p_functionResponse := Some (fr\<lparr>fr_response := Some placeholder_response\<rparr>)\<rparr>))"
| "blank_part (NonDictPart j) = NonDictPart j"

fun blank_tool_results :: "gcontent \<Rightarrow> gcontent" where
  "blank_tool_results (Content r ps) =
     (if r = Some ''user''
      then (case ps of None \<Rightarrow> Content r ps | Some xs \<Rightarrow> Content r (Some (map blank_part xs)))
      else Content r ps)"
| "blank_tool_results (NonDictContent j) = NonDictContent j"

text \<open>
  The second loop, \<open>for i in range(original_contents_length, len(contents))\<close>:
  \<open>replace_from keep i cs\<close> runs over the messages \<open>cs\<close>, the first of which has index
  \<open>i\<close>, and skips the index \<open>keep\<close> (the source's \<open>last_function_response_index\<close>).
\<close>

fun replace_from :: "nat option \<Rightarrow> nat \<Rightarrow> gcontent list \<Rightarrow> gcontent list" where
  "replace_from keep i [] = []"
| "replace_from keep i (c # cs) =
     (if Some i = keep then c else blank_tool_results c) # replace_from keep (Suc i) cs"

text \<open>
  \<open>GeminiProxy._replace_old_tool_results\<close>. The source mutates \<open>contents\<close> in place; the
  model returns the new list.
\<close>

definition replace_old_tool_results :: "gcontent list \<Rightarrow> nat \<Rightarrow> gcontent list" where
  "replace_old_tool_results contents original_contents_length =
     (let keep = last_function_response_index contents original_contents_length
      in take original_contents_length contents
         @ replace_from keep original_contents_length (drop original_contents_length contents))"

text \<open>The payloads of the tool results of one message, in part order.\<close>

fun part_payload :: "part \<Rightarrow> json option list" where
  "part_payload (Part d) =
     (case p_functionResponse d of None \<Rightarrow> [] | Some fr \<Rightarrow> [fr_response fr])"
| "part_payload (NonDictPart j) = []"

fun tool_payloads :: "gcontent \<Rightarrow> json option list" where
  "tool_payloads (Content r ps) = concat (map part_payload (get_parts ps))"
| "tool_payloads (NonDictContent j) = []"

text \<open>
  The most recent tool-result message among those the proxy appended: index \<open>i\<close> is at
  or after \<open>n0\<close>, holds a tool result, and no later message does.
\<close>

definition most_recent_tool_result :: "gcontent list \<Rightarrow> nat \<Rightarrow> nat \<Rightarrow> bool" where
  "most_recent_tool_result cs n0 i =
     (n0 \<le> i \<and> i < length cs \<and> has_function_response (cs ! i)
      \<and> \<not> list_ex has_function_response (drop (Suc i) cs))"

text \<open>
  A conversation for the examples: a client-supplied tool result (index 0) and question
  (index 1), then what the proxy appended in two iterations.
\<close>

definition user_text :: "string \<Rightarrow> gcontent" where
  "user_text t = Content (Some ''user'')
     (Some [Part \<lparr>p_text = Some t, p_thought = False, p_functionCall = None,
                   p_functionResponse = None, p_thoughtSignature = None\<rparr>])"

definition tool_result :: "string \<Rightarrow> string \<Rightarrow> gcontent" where
  "tool_result n r = Content (Some ''user'')
     (Some [Part \<lparr>p_text = None, p_thought = False, p_functionCall = None,
                   p_functionResponse = Some \<lparr>fr_name = Some n,
                      fr_response = Some (JDict [(''result'', JStr r)])\<rparr>,
                   p_thoughtSignature = None\<rparr>])"

definition model_call :: "string \<Rightarrow> gcontent" where
  "model_call n = Content (Some ''model'')
     (Some [Part \<lparr>p_text = None, p_thought = False,
                   p_functionCall = Some \<lparr>fc_name = Some n, fc_args = Some (JDict [])\<rparr>,
                   p_functionResponse = None, p_thoughtSignature = Some ''sig''\<rparr>])"

definition history_example :: "gcontent list" where
  "history_example =
     [tool_result ''old'' ''r0'', user_text ''hi'',
      model_call ''s_t'', tool_result ''s_t'' ''r1'',
      model_call ''s_t'', tool_result ''s_t'' ''r2'']"

section \<open>The tool server manager (mcp\_client.py)\<close>

datatype MCPServerType = STDIO | STREAMABLE_HTTP | SSE

record MCPTool =
  tool_name :: string
  tool_description :: string
  input_schema :: json
  server_name :: string

text \<open>
  The fields a descriptor fills are kept as the JSON values they come as; the path of
  the server file is a string, or null when the registry found none.
\<close>

record MCPServerConfig =
  cfg_name :: string
  server_type :: MCPServerType
  cfg_description :: json
  enabled :: bool
  command :: "json option"
  args :: "json list option"
  env :: "json option"
  url :: "json option"
  headers :: "json option"

text \<open>
  A live connection: the adapter class \<open>create_connection\<close> chose, and the tool
  server behind it, which is the environment: \<open>conn_reply k n a\<close> is what
  \<open>_send_request("tools/call", {"name": n, "arguments": a})\<close> returns when \<open>k\<close> tool
  calls were dispatched before.
\<close>

record connection =
  conn_class :: MCPServerType
  conn_reply :: "nat \<Rightarrow> string \<Rightarrow> json \<Rightarrow> rpc_response option"

text \<open>
  The three dictionaries of \<open>MCPManager\<close>, as association lists in insertion order
  with one entry for each key.
\<close>

record MCPManager =
  servers :: "(string \<times> MCPServerConfig) list"
  connections :: "(string \<times> connection) list"
  tools :: "(string \<times> MCPTool) list"

text \<open>Python's \<open>s.replace(old, new, 1)\<close>.\<close>

fun replace_first :: "string \<Rightarrow> string \<Rightarrow> string \<Rightarrow> string" where
  "replace_first old new [] = (if old = [] then new else [])"
| "replace_first old new (c # cs) =
     (if take (length old) (c # cs) = old then new @ drop (length old) (c # cs)
      else c # replace_first old new cs)"

text \<open>The message for a tool name that is not registered (UTF-8 of U+5DE5 U+5177 U+4E0D U+5B58 U+5728, colon, space).\<close>

definition tool_missing :: string where
  "tool_missing = [CHR 0xE5, CHR 0xB7, CHR 0xA5, CHR 0xE5, CHR 0x85, CHR 0xB7, CHR 0xE4, CHR 0xB8,
                   CHR 0x8D, CHR 0xE5, CHR 0xAD, CHR 0x98, CHR 0xE5, CHR 0x9C, CHR 0xA8] @ '': ''"

text \<open>The message for a tool whose server has no connection (UTF-8 of U+670D U+52A1 U+5668 U+672A U+8FDE U+63A5, colon, space).\<close>

definition not_connected :: string where
  "not_connected = [CHR 0xE6, CHR 0x9C, CHR 0x8D, CHR 0xE5, CHR 0x8A, CHR 0xA1, CHR 0xE5, CHR 0x99,
                    CHR 0xA8, CHR 0xE6, CHR 0x9C, CHR 0xAA, CHR 0xE8, CHR 0xBF, CHR 0x9E, CHR 0xE6,
                    CHR 0x8E, CHR 0xA5] @ '': ''"

text \<open>\<open>connection.call_tool\<close>, by the class of the connection.\<close>

definition connection_call_tool ::
  "(content_item list \<Rightarrow> string) \<Rightarrow> connection \<Rightarrow> nat \<Rightarrow> string \<Rightarrow> json \<Rightarrow> string option" where
  "connection_call_tool dumps c k n a =
     (case conn_class c of
        STDIO \<Rightarrow> stdio_call_tool dumps (conn_reply c k n a)
      | STREAMABLE_HTTP \<Rightarrow> http_call_tool dumps (conn_reply c k n a)
      | SSE \<Rightarrow> sse_call_tool dumps (conn_reply c k n a))"

text \<open>\<open>MCPManager.call_tool\<close>.\<close>

definition call_tool ::
  "(content_item list \<Rightarrow> string) \<Rightarrow> MCPManager \<Rightarrow> nat \<Rightarrow> string \<Rightarrow> json \<Rightarrow> string option" where
  "call_tool dumps m k n a =
     (case map_of (tools m) n of
        None \<Rightarrow> Some (tool_missing @ n)
      | Some tool \<Rightarrow>
          (case map_of (connections m) (server_name tool) of
             None \<Rightarrow> Some (not_connected @ server_name tool)
           | Some c \<Rightarrow>
               connection_call_tool dumps c k (replace_first (server_name tool @ ''_'') [] n) a))"

section \<open>The Gemini engine (gemini\_proxy\_server.py)\<close>

subsection \<open>Upstream envelopes\<close>

record content_dict =
  c_role :: "string option"
  c_parts :: "part list option"

record candidate =
  cand_content :: "content_dict option"
  finishReason :: "string option"
  cand_index :: "int option"

record gemini_result =
  candidates :: "candidate list option"
  usageMetadata :: "json option"
  modelVersion :: "json option"
  responseId :: "json option"
  other_fields :: "(string \<times> json) list"

text \<open>
  An upstream HTTP response: \<open>json_body\<close> is what \<open>response.json()\<close> returns, \<open>None\<close>
  when it raises. A call of \<open>requests.post\<close> returns a response or raises one of the two
  exceptions \<open>process_request\<close> catches.
\<close>

record response =
  status_code :: int
  json_body :: "gemini_result option"
  resp_text :: string

datatype outcome = Returned response | RaisesTimeout string | RaisesRequestException string

text \<open>A tool entry of the request: a group of function declarations, or anything else.\<close>

record function_declaration =
  d_name :: string
  d_description :: string
  d_parameters :: "json option"

datatype gtool = FunctionDeclarations "function_declaration list" | OtherTool json

text \<open>What the engine does to the outside, in order.\<close>

datatype event = Request "gcontent list" "gtool list option" | Sleep int | ToolCall string json

text \<open>
  The configuration the engine reads with \<open>CONFIG.get(key, default)\<close>; an absent key
  is \<open>None\<close>.
\<close>

record config =
  max_iterations :: "int option"
  api_retry_count :: "int option"
  api_retry_delay :: "int option"

text \<open>
  A \<open>GeminiProxy\<close> with what it reads from outside: \<open>upstream k\<close> is the outcome of the
  \<open>k\<close>-th \<open>requests.post\<close> of the request (counted from 0), \<open>json_dumps\<close> is
  \<open>json.dumps(..., ensure_ascii=False)\<close> and \<open>dumps_content\<close> is \<open>json.dumps\<close> on a
  content list.
\<close>

record engine =
  upstream :: "nat \<Rightarrow> outcome"
  json_dumps :: "json \<Rightarrow> string"
  dumps_content :: "content_item list \<Rightarrow> string"
  CONFIG :: config
  mcp_manager :: "MCPManager option"

text \<open>The local variables of \<open>process_request\<close>, and the trace of what it did.\<close>

record pstate =
  contents_copy :: "gcontent list"
  iteration :: int
  accumulated_thought_texts :: "string list"
  accumulated_tool_texts :: "string list"
  calls :: nat
  dispatches :: nat
  log :: "event list"

subsection \<open>Tools sent upstream\<close>

text \<open>Python's truth value of a JSON value (\<open>if tool.input_schema:\<close>).\<close>

fun truthy :: "json \<Rightarrow> bool" where
  "truthy JNull = False"
| "truthy (JBool b) = b"
| "truthy (JNum n) = (n \<noteq> 0)"
| "truthy (JStr s) = (s \<noteq> [])"
| "truthy (JList xs) = (xs \<noteq> [])"
| "truthy (JDict kvs) = (kvs \<noteq> [])"

definition tool_declaration :: "MCPTool \<Rightarrow> function_declaration" where
  "tool_declaration t =
     \<lparr>d_name = tool_name t, d_description = tool_description t,
      d_parameters = (if truthy (input_schema t) then Some (input_schema t) else None)\<rparr>"

text \<open>\<open>GeminiProxy._get_mcp_tools_as_gemini_format\<close>.\<close>

definition get_mcp_tools_as_gemini_format :: "MCPManager option \<Rightarrow> gtool list" where
  "get_mcp_tools_as_gemini_format m =
     (case m of
        None \<Rightarrow> []
      | Some mgr \<Rightarrow>
          (let function_declarations = map (\<lambda>(k, t). tool_declaration t) (tools mgr)
           in if function_declarations \<noteq> [] then [FunctionDeclarations function_declarations]
              else []))"

text \<open>
  The first lines of \<open>process_request\<close> and of \<open>process_request_stream\<close>:
  \<open>combined_tools = list(tools) if tools else []\<close>, extended by the manager's tools, and
  \<open>None\<close> when empty.
\<close>

definition combined_tools :: "MCPManager option \<Rightarrow> gtool list option \<Rightarrow> gtool list option" where
  "combined_tools m ts =
     (let combined = (case ts of None \<Rightarrow> [] | Some xs \<Rightarrow> xs)
                     @ (case m of None \<Rightarrow> [] | Some mgr \<Rightarrow> get_mcp_tools_as_gemini_format m)
      in if combined = [] then None else Some combined)"

subsection \<open>Upstream calls and retry\<close>

text \<open>\<open>GeminiProxy._make_gemini_request\<close>: one \<open>requests.post\<close>.\<close>

definition make_gemini_request ::
  "engine \<Rightarrow> gcontent list \<Rightarrow> gtool list option \<Rightarrow> pstate \<Rightarrow> outcome \<times> pstate" where
  "make_gemini_request e cs ts s =
     (upstream e (calls s), s\<lparr>calls := Suc (calls s), log := log s @ [Request cs ts]\<rparr>)"

text \<open>
  The loop \<open>for retry in range(max_retries)\<close> of \<open>_make_gemini_request_with_retry\<close>,
  entered with the failed response \<open>r\<close>: sleep, post again, stop at status 200. An
  exception of \<open>requests.post\<close> leaves the loop.
\<close>

fun retry_loop ::
  "engine \<Rightarrow> gcontent list \<Rightarrow> gtool list option \<Rightarrow> int \<Rightarrow> nat \<Rightarrow> response \<Rightarrow> pstate
     \<Rightarrow> outcome \<times> pstate" where
  "retry_loop e cs ts retry_delay 0 r s = (Returned r, s)"
| "retry_loop e cs ts retry_delay (Suc k) r s =
     (case make_gemini_request e cs ts (s\<lparr>log := log s @ [Sleep retry_delay]\<rparr>) of
        (Returned r', s') \<Rightarrow>
          if status_code r' = 200 then (Returned r', s')
          else retry_loop e cs ts retry_delay k r' s'
      | (out, s') \<Rightarrow> (out, s'))"

text \<open>
  How many posts the retry loop makes when it is entered with \<open>k\<close> retries left and
  the next post is the \<open>c\<close>-th of the request.
\<close>

fun retries_done :: "engine \<Rightarrow> nat \<Rightarrow> nat \<Rightarrow> nat" where
  "retries_done e c 0 = 0"
| "retries_done e c (Suc k) =
     (case upstream e c of
        Returned r \<Rightarrow> if status_code r = 200 then 1 else Suc (retries_done e (Suc c) k)
      | _ \<Rightarrow> 1)"

text \<open>\<open>CONFIG.get('api_retry_count', 2)\<close> and \<open>CONFIG.get('api_retry_delay', 5)\<close>.\<close>

definition retry_count :: "engine \<Rightarrow> int" where
  "retry_count e = (case api_retry_count (CONFIG e) of None \<Rightarrow> 2 | Some n \<Rightarrow> n)"

definition retry_delay_of :: "engine \<Rightarrow> int" where
  "retry_delay_of e = (case api_retry_delay (CONFIG e) of None \<Rightarrow> 5 | Some d \<Rightarrow> d)"

text \<open>\<open>GeminiProxy._make_gemini_request_with_retry\<close>.\<close>

definition make_gemini_request_with_retry ::
  "engine \<Rightarrow> gcontent list \<Rightarrow> gtool list option \<Rightarrow> bool \<Rightarrow> pstate \<Rightarrow> outcome \<times> pstate" where
  "make_gemini_request_with_retry e cs ts is_internal_call s =
     (let max_retries = retry_count e;
          retry_delay = retry_delay_of e
      in case make_gemini_request e cs ts s of
           (Returned r, s') \<Rightarrow>
             if is_internal_call \<and> status_code r \<noteq> 200
             then retry_loop e cs ts retry_delay (nat max_retries) r s'
             else (Returned r, s')
         | (out, s') \<Rightarrow> (out, s'))"



text \<open>The state \<open>process_request\<close> starts from.\<close>

definition init_state :: "gcontent list \<Rightarrow> pstate" where
  "init_state contents =
     \<lparr>contents_copy = contents, iteration = 0, accumulated_thought_texts = [],
      accumulated_tool_texts = [], calls = 0, dispatches = 0, log = []\<rparr>"



subsection \<open>The buffered loop\<close>

text \<open>
  What \<open>process_request\<close> hands back: a reply envelope, an error envelope with its
  status (the dictionary with \<open>_status_code\<close> and \<open>_response\<close>), or the exception of
  \<open>response.json()\<close> on a body of status 200 that is no JSON.
\<close>

datatype failure = RequestTimeout string | RequestFailed string
  | UpstreamJson gemini_result | UpstreamText string

datatype reply = Final gemini_result | Failed int failure | RaisesJSONDecodeError

text \<open>
  The whitespace \<open>str.strip\<close> removes, on ASCII: tab, line feed, vertical tab, form
  feed, carriage return, the separators 0x1C to 0x1F, and space.
\<close>

definition is_space :: "char \<Rightarrow> bool" where
  "is_space c = (c \<in> set [CHR 0x09, CHR 0x0A, CHR 0x0B, CHR 0x0C, CHR 0x0D,
                           CHR 0x1C, CHR 0x1D, CHR 0x1E, CHR 0x1F, CHR 0x20])"

definition strip :: "string \<Rightarrow> string" where
  "strip s = rev (dropWhile is_space (rev (dropWhile is_space s)))"

text \<open>
  \<open>GeminiProxy._format_tool_call_text\<close>: two line feeds, the opening bracket and the
  words for "call tool" (UTF-8 of U+300C U+8C03 U+7528 U+5DE5 U+5177 U+FF1A), the name,
  a bar and the word for "content" (U+5185 U+5BB9 U+FF1A), the arguments, the closing
  bracket (U+300D), two line feeds.
\<close>

definition format_tool_call_text :: "string \<Rightarrow> string \<Rightarrow> string" where
  "format_tool_call_text n a =
     nl @ nl
     @ [CHR 0xE3, CHR 0x80, CHR 0x8C, CHR 0xE8, CHR 0xB0, CHR 0x83, CHR 0xE7, CHR 0x94, CHR 0xA8,
        CHR 0xE5, CHR 0xB7, CHR 0xA5, CHR 0xE5, CHR 0x85, CHR 0xB7, CHR 0xEF, CHR 0xBC, CHR 0x9A]
     @ n @ ''|''
     @ [CHR 0xE5, CHR 0x86, CHR 0x85, CHR 0xE5, CHR 0xAE, CHR 0xB9, CHR 0xEF, CHR 0xBC, CHR 0x9A]
     @ a @ [CHR 0xE3, CHR 0x80, CHR 0x8D] @ nl @ nl"

text \<open>The fallback tool result, "tool execution failed" (UTF-8 of U+5DE5 U+5177 U+6267 U+884C U+5931 U+8D25).\<close>

definition tool_failed :: string where
  "tool_failed = [CHR 0xE5, CHR 0xB7, CHR 0xA5, CHR 0xE5, CHR 0x85, CHR 0xB7, CHR 0xE6, CHR 0x89,
                  CHR 0xA7, CHR 0xE8, CHR 0xA1, CHR 0x8C, CHR 0xE5, CHR 0xA4, CHR 0xB1, CHR 0xE8,
                  CHR 0xB4, CHR 0xA5]"

text \<open>The text of the reply at the iteration cap (UTF-8 of the bracketed marker).\<close>

definition max_iterations_marker :: string where
  "max_iterations_marker = ''['' @ [CHR 0xE8, CHR 0xBE, CHR 0xBE, CHR 0xE5, CHR 0x88, CHR 0xB0,
     CHR 0xE6, CHR 0x9C, CHR 0x80, CHR 0xE5, CHR 0xA4, CHR 0xA7, CHR 0xE5, CHR 0xB7, CHR 0xA5,
     CHR 0xE5, CHR 0x85, CHR 0xB7, CHR 0xE8, CHR 0xB0, CHR 0x83, CHR 0xE7, CHR 0x94, CHR 0xA8,
     CHR 0xE8, CHR 0xBF, CHR 0xAD, CHR 0xE4, CHR 0xBB, CHR 0xA3, CHR 0xE6, CHR 0xAC, CHR 0xA1,
     CHR 0xE6, CHR 0x95, CHR 0xB0] @ '']''"

text \<open>A part that carries only a text, reasoning-tagged or not.\<close>

definition text_part :: "string \<Rightarrow> bool \<Rightarrow> part" where
  "text_part t th = Part \<lparr>p_text = Some t, p_thought = th, p_functionCall = None,
                           p_functionResponse = None, p_thoughtSignature = None\<rparr>"

text \<open>\<open>result.get('candidates', [])\<close>, and the parts of a candidate.\<close>

definition get_candidates :: "gemini_result \<Rightarrow> candidate list" where
  "get_candidates r = (case candidates r of None \<Rightarrow> [] | Some cs \<Rightarrow> cs)"

definition candidate_parts :: "candidate \<Rightarrow> part list" where
  "candidate_parts c = (case cand_content c of None \<Rightarrow> [] | Some d \<Rightarrow> get_parts (c_parts d))"

text \<open>
  The parts of the last reply that the final reply keeps: dictionaries that are neither
  reasoning nor a function call.
\<close>

fun is_visible_part :: "part \<Rightarrow> bool" where
  "is_visible_part (Part d) = (\<not> p_thought d \<and> p_functionCall d = None)"
| "is_visible_part (NonDictPart j) = False"

text \<open>\<open>GeminiProxy._build_final_response_with_accumulated_thoughts\<close>.\<close>

definition thought_sections :: "string list \<Rightarrow> string list \<Rightarrow> string list" where
  "thought_sections thought_texts tool_texts =
     filter (\<lambda>t. strip t \<noteq> []) thought_texts
     @ (if tool_texts \<noteq> [] then [join nl tool_texts] else [])"

definition build_final_response_with_accumulated_thoughts ::
  "gemini_result \<Rightarrow> string list \<Rightarrow> string list \<Rightarrow> gemini_result" where
  "build_final_response_with_accumulated_thoughts last_result thought_texts tool_texts =
     (let sections = thought_sections thought_texts tool_texts;
          final_parts =
            (if sections \<noteq> [] then [text_part (join (nl @ nl) sections) True] else [])
            @ (case get_candidates last_result of
                 [] \<Rightarrow> []
               | c # cs \<Rightarrow> filter is_visible_part (candidate_parts c))
      in \<lparr>candidates = Some
            [\<lparr>cand_content = Some \<lparr>c_role = Some ''model'', c_parts = Some final_parts\<rparr>,
              finishReason =
                (case get_candidates last_result of
                   [] \<Rightarrow> None
                 | c # cs \<Rightarrow> Some (case finishReason c of None \<Rightarrow> ''STOP'' | Some f \<Rightarrow> f)),
              cand_index = Some 0\<rparr>],
          usageMetadata = usageMetadata last_result,
          modelVersion = modelVersion last_result,
          responseId = responseId last_result,
          other_fields = []\<rparr>)"

text \<open>The reply after the loop, at the iteration cap.\<close>

definition max_iterations_reply :: gemini_result where
  "max_iterations_reply =
     \<lparr>candidates = Some
        [\<lparr>cand_content = Some \<lparr>c_role = Some ''model'',
                                 c_parts = Some [text_part max_iterations_marker False]\<rparr>,
          finishReason = Some ''MAX_TOKENS'', cand_index = None\<rparr>],
      usageMetadata = None, modelVersion = None, responseId = None, other_fields = []\<rparr>"

text \<open>The reasoning texts of a reply: \<open>part.get('thought') and 'text' in part\<close>.\<close>

fun thought_text :: "part \<Rightarrow> string list" where
  "thought_text (Part d) =
     (if p_thought d then (case p_text d of None \<Rightarrow> [] | Some t \<Rightarrow> [t]) else [])"
| "thought_text (NonDictPart j) = []"

text \<open>
  \<open>GeminiProxy._get_function_calls\<close>. The copies also get the keys \<open>_part_index\<close> and
  \<open>_thought_signature\<close>, which \<open>process_request\<close> never reads.
\<close>

fun part_function_call :: "part \<Rightarrow> function_call list" where
  "part_function_call (Part d) = (case p_functionCall d of None \<Rightarrow> [] | Some fc \<Rightarrow> [fc])"
| "part_function_call (NonDictPart j) = []"

definition get_function_calls :: "part list \<Rightarrow> function_call list" where
  "get_function_calls ps = concat (map part_function_call ps)"

text \<open>\<open>fc.get('name', '')\<close> and \<open>fc.get('args', {})\<close>.\<close>

definition call_name :: "function_call \<Rightarrow> string" where
  "call_name fc = (case fc_name fc of None \<Rightarrow> [] | Some n \<Rightarrow> n)"

definition call_args :: "function_call \<Rightarrow> json" where
  "call_args fc = (case fc_args fc of None \<Rightarrow> JDict [] | Some a \<Rightarrow> a)"

text \<open>The placeholder text of one tool call.\<close>

definition tool_call_placeholder :: "engine \<Rightarrow> function_call \<Rightarrow> string" where
  "tool_call_placeholder e fc = format_tool_call_text (call_name fc) (json_dumps e (call_args fc))"

text \<open>\<open>GeminiProxy._is_mcp_tool\<close> and \<open>GeminiProxy._execute_mcp_tool\<close>.\<close>

definition is_mcp_tool :: "engine \<Rightarrow> string \<Rightarrow> bool" where
  "is_mcp_tool e n = (case mcp_manager e of None \<Rightarrow> False | Some m \<Rightarrow> map_of (tools m) n \<noteq> None)"

definition execute_mcp_tool :: "engine \<Rightarrow> string \<Rightarrow> json \<Rightarrow> pstate \<Rightarrow> string option \<times> pstate" where
  "execute_mcp_tool e n a s =
     (case mcp_manager e of
        None \<Rightarrow> (None, s)
      | Some m \<Rightarrow>
          (call_tool (dumps_content e) m (dispatches s) n a,
           s\<lparr>dispatches := Suc (dispatches s), log := log s @ [ToolCall n a]\<rparr>))"

text \<open>\<open>result_data or <tool execution failed>\<close>.\<close>

definition result_or_failed :: "string option \<Rightarrow> string" where
  "result_or_failed r = (case r of None \<Rightarrow> tool_failed | Some t \<Rightarrow> if t = [] then tool_failed else t)"

definition function_response_part :: "string \<Rightarrow> string \<Rightarrow> part" where
  "function_response_part n r =
     Part \<lparr>p_text = None, p_thought = False, p_functionCall = None,
           p_functionResponse = Some \<lparr>fr_name = Some n,
              fr_response = Some (JDict [(''result'', JStr r)])\<rparr>,
           p_thoughtSignature = None\<rparr>"

text \<open>The loop \<open>for fc in mcp_tool_calls\<close> that fills \<open>function_responses\<close>.\<close>

fun execute_calls :: "engine \<Rightarrow> function_call list \<Rightarrow> pstate \<Rightarrow> part list \<times> pstate" where
  "execute_calls e [] s = ([], s)"
| "execute_calls e (fc # fcs) s =
     (case execute_mcp_tool e (call_name fc) (call_args fc) s of
        (result_data, s1) \<Rightarrow>
          (case execute_calls e fcs s1 of
             (ps, s2) \<Rightarrow>
               (function_response_part (call_name fc) (result_or_failed result_data) # ps, s2)))"

text \<open>
  The two places where \<open>process_request\<close> returns the last envelope: built with the
  accumulated texts if there are any, as it came otherwise.
\<close>

definition final_or_result :: "gemini_result \<Rightarrow> pstate \<Rightarrow> gemini_result" where
  "final_or_result result s =
     (if accumulated_thought_texts s \<noteq> [] \<or> accumulated_tool_texts s \<noteq> []
      then build_final_response_with_accumulated_thoughts result
             (accumulated_thought_texts s) (accumulated_tool_texts s)
      else result)"

text \<open>
  The message the engine appends before the tool results: the role of the reply
  (\<open>content.get("role", "model")\<close>) and a deep copy of its parts.
\<close>

definition model_content :: "candidate \<Rightarrow> gcontent" where
  "model_content c =
     Content (Some (case cand_content c of
                      None \<Rightarrow> ''model''
                    | Some d \<Rightarrow> (case c_role d of None \<Rightarrow> ''model'' | Some r \<Rightarrow> r)))
             (Some (candidate_parts c))"

text \<open>
  The body of the loop of \<open>process_request\<close> from \<open>result = response.json()\<close> on.
  \<open>Some r\<close> is \<open>return r\<close>; \<open>None\<close> is \<open>continue\<close>.
\<close>

definition handle_result :: "engine \<Rightarrow> bool \<Rightarrow> gemini_result \<Rightarrow> pstate \<Rightarrow> reply option \<times> pstate" where
  "handle_result e execute_mcp_tools result s =
     (case get_candidates result of
        [] \<Rightarrow> (Some (Final (final_or_result result s)), s)
      | c # cs \<Rightarrow>
          (let ps = candidate_parts c;
               s1 = s\<lparr>accumulated_thought_texts :=
                        accumulated_thought_texts s @ concat (map thought_text ps)\<rparr>;
               function_calls = get_function_calls ps
           in if function_calls = [] then (Some (Final (final_or_result result s1)), s1)
              else
                (let s2 = s1\<lparr>accumulated_tool_texts :=
                              accumulated_tool_texts s1 @ map (tool_call_placeholder e) function_calls\<rparr>;
                     mcp_tool_calls = filter (\<lambda>fc. is_mcp_tool e (call_name fc)) function_calls
                 in if execute_mcp_tools \<and> mcp_manager e \<noteq> None \<and> mcp_tool_calls \<noteq> []
                    then
                      (case execute_calls e mcp_tool_calls
                              (s2\<lparr>contents_copy := contents_copy s2 @ [model_content c]\<rparr>) of
                         (function_responses, s3) \<Rightarrow>
                           (None, s3\<lparr>contents_copy := contents_copy s3
                                       @ [Content (Some ''user'') (Some function_responses)]\<rparr>))
                    else (Some (Final (build_final_response_with_accumulated_thoughts result
                                        (accumulated_thought_texts s2) (accumulated_tool_texts s2))),
                          s2))))"

text \<open>One pass of the loop of \<open>process_request\<close>.\<close>

definition loop_body ::
  "engine \<Rightarrow> bool \<Rightarrow> gtool list option \<Rightarrow> nat \<Rightarrow> pstate \<Rightarrow> reply option \<times> pstate" where
  "loop_body e execute_mcp_tools combined original_contents_length s0 =
     (let s = s0\<lparr>contents_copy :=
                   replace_old_tool_results (contents_copy s0) original_contents_length\<rparr>
      in case make_gemini_request_with_retry e (contents_copy s) combined (0 < iteration s) s of
           (RaisesTimeout m, s1) \<Rightarrow> (Some (Failed 504 (RequestTimeout m)), s1)
         | (RaisesRequestException m, s1) \<Rightarrow> (Some (Failed 503 (RequestFailed m)), s1)
         | (Returned r, s1) \<Rightarrow>
             if status_code r \<noteq> 200
             then (Some (Failed (status_code r)
                     (case json_body r of None \<Rightarrow> UpstreamText (resp_text r)
                                        | Some j \<Rightarrow> UpstreamJson j)), s1)
             else (case json_body r of
                     None \<Rightarrow> (Some RaisesJSONDecodeError, s1)
                   | Some result \<Rightarrow> handle_result e execute_mcp_tools result s1))"

text \<open>
  \<open>while iteration < max_iterations\<close>. The body never assigns \<open>iteration\<close>; the
  \<open>iteration += 1\<close> before \<open>continue\<close> is done here.
\<close>

function process_loop ::
  "engine \<Rightarrow> bool \<Rightarrow> gtool list option \<Rightarrow> nat \<Rightarrow> int \<Rightarrow> pstate \<Rightarrow> reply \<times> pstate" where
  "process_loop e execute_mcp_tools combined n0 max_it s =
     (if iteration s < max_it
      then (case loop_body e execute_mcp_tools combined n0 s of
              (Some r, s') \<Rightarrow> (r, s')
            | (None, s') \<Rightarrow>
                process_loop e execute_mcp_tools combined n0 max_it (s'\<lparr>iteration := iteration s + 1\<rparr>))
      else (Final max_iterations_reply, s))"
  by pat_completeness auto
termination
  by (relation "measure (\<lambda>(e, x, c, n0, m, s). nat (m - iteration s))") auto

declare process_loop.simps [simp del]

text \<open>\<open>CONFIG.get('max_iterations', 100)\<close>.\<close>

definition max_iterations_of :: "engine \<Rightarrow> int" where
  "max_iterations_of e = (case max_iterations (CONFIG e) of None \<Rightarrow> 100 | Some n \<Rightarrow> n)"

text \<open>\<open>GeminiProxy.process_request\<close>: the reply, and the final state with its trace.\<close>

definition process_request ::
  "engine \<Rightarrow> gcontent list \<Rightarrow> gtool list option \<Rightarrow> bool \<Rightarrow> reply \<times> pstate" where
  "process_request e contents ts execute_mcp_tools =
     process_loop e execute_mcp_tools (combined_tools (mcp_manager e) ts) (length contents)
       (max_iterations_of e) (init_state contents)"

subsection \<open>Examples\<close>

text \<open>
  A manager with one live stdio server \<open>s\<close> that offers the tool \<open>t\<close>, registered
  under the qualified name \<open>s_t\<close>; every call of it answers with the text \<open>r\<close>.
\<close>

definition example_manager :: MCPManager where
  "example_manager =
     \<lparr>servers = [],
      connections = [(''s'', \<lparr>conn_class = STDIO,
         conn_reply = (\<lambda>k n a. Some \<lparr>resp_result = Some \<lparr>content = Some
            [\<lparr>item_type = Some ''text'', item_text = Some ''r''\<rparr>]\<rparr>, resp_error = None\<rparr>)\<rparr>)],
      tools = [(''s_t'', \<lparr>tool_name = ''s_t'', tool_description = ''a tool'',
                          input_schema = JDict [], server_name = ''s''\<rparr>)]\<rparr>"

text \<open>An upstream envelope of status 200 with one candidate that holds the given parts.\<close>

definition envelope_body :: "part list \<Rightarrow> gemini_result" where
  "envelope_body ps =
     \<lparr>candidates = Some
        [\<lparr>cand_content = Some \<lparr>c_role = Some ''model'', c_parts = Some ps\<rparr>,
          finishReason = Some ''STOP'', cand_index = Some 0\<rparr>],
      usageMetadata = None, modelVersion = None, responseId = None, other_fields = []\<rparr>"

definition envelope :: "part list \<Rightarrow> outcome" where
  "envelope ps =
     Returned \<lparr>status_code = 200, json_body = Some (envelope_body ps), resp_text = []\<rparr>"

definition call_part :: "string \<Rightarrow> part" where
  "call_part n = Part \<lparr>p_text = None, p_thought = False,
     p_functionCall = Some \<lparr>fc_name = Some n, fc_args = Some (JDict [])\<rparr>,
     p_functionResponse = None, p_thoughtSignature = None\<rparr>"

text \<open>
  An engine whose model first thinks and calls \<open>s_t\<close>, then thinks again and answers.
\<close>

definition example_engine :: engine where
  "example_engine =
     \<lparr>upstream = (\<lambda>k. if k = 0 then envelope [text_part ''think1'' True, call_part ''s_t'']
                        else envelope [text_part ''think2'' True, text_part ''done'' False]),
      json_dumps = (\<lambda>j. ''{}''), dumps_content = (\<lambda>c. ''[]''),
      CONFIG = \<lparr>max_iterations = None, api_retry_count = None, api_retry_delay = None\<rparr>,
      mcp_manager = Some example_manager\<rparr>"



text \<open>The parts of the first candidate of a reply envelope.\<close>

definition envelope_parts :: "gemini_result \<Rightarrow> part list" where
  "envelope_parts r = (case get_candidates r of [] \<Rightarrow> [] | c # cs \<Rightarrow> candidate_parts c)"


subsection \<open>The trace of a request, for stating what the loop does\<close>

text \<open>
  How many retries one upstream call makes, when its first post is the \<open>c\<close>-th of the
  request and \<open>b\<close> says whether the call is internal.
\<close>

definition request_retries :: "engine \<Rightarrow> bool \<Rightarrow> nat \<Rightarrow> nat" where
  "request_retries e b c =
     (case upstream e c of
        Returned r \<Rightarrow>
          if b \<and> status_code r \<noteq> 200 then retries_done e (Suc c) (nat (retry_count e)) else 0
      | _ \<Rightarrow> 0)"

text \<open>
  The envelope the loop parses out of an outcome: the JSON body of a response of status
  200. The envelopes of the first \<open>n\<close> posts of a request, in order.
\<close>

definition ok_envelope :: "outcome \<Rightarrow> gemini_result list" where
  "ok_envelope out =
     (case out of
        Returned r \<Rightarrow>
          if status_code r = 200 then (case json_body r of None \<Rightarrow> [] | Some res \<Rightarrow> [res])
          else []
      | _ \<Rightarrow> [])"


text \<open>
  The reasoning fragments and the tool-call placeholders that one envelope
  produces, in part order.
\<close>

definition envelope_thoughts :: "gemini_result \<Rightarrow> string list" where
  "envelope_thoughts r = concat (map thought_text (envelope_parts r))"

definition envelope_placeholders :: "engine \<Rightarrow> gemini_result \<Rightarrow> string list" where
  "envelope_placeholders e r = map (tool_call_placeholder e) (get_function_calls (envelope_parts r))"



text \<open>The tool lists of the requests of a trace.\<close>

fun requested_tools :: "event \<Rightarrow> gtool list option list" where
  "requested_tools (Request cs ts) = [ts]"
| "requested_tools (ToolCall n a) = []"
| "requested_tools (Sleep d) = []"

definition tools_sent :: "event list \<Rightarrow> gtool list option list" where
  "tools_sent evs = concat (map requested_tools evs)"

text \<open>The tool calls of an envelope, and those among them that the manager owns.\<close>

definition envelope_calls :: "gemini_result \<Rightarrow> function_call list" where
  "envelope_calls r = get_function_calls (envelope_parts r)"

definition mcp_calls :: "engine \<Rightarrow> gemini_result \<Rightarrow> function_call list" where
  "mcp_calls e r = filter (\<lambda>fc. is_mcp_tool e (call_name fc)) (envelope_calls r)"

definition tool_call_event :: "function_call \<Rightarrow> event" where
  "tool_call_event fc = ToolCall (call_name fc) (call_args fc)"

text \<open>
  One pass of the loop from the state \<open>s\<close>: how many retries its upstream call
  makes, and the outcome the call ends with.
\<close>

definition pass_retries :: "engine \<Rightarrow> pstate \<Rightarrow> nat" where
  "pass_retries e s = request_retries e (0 < iteration s) (calls s)"

definition pass_outcome :: "engine \<Rightarrow> pstate \<Rightarrow> outcome" where
  "pass_outcome e s = upstream e (calls s + pass_retries e s)"






section \<open>The DeepSeek engine (proxy\_server.py)\<close>

text \<open>
  A tool call as the upstream client object has it (\<open>tc_index\<close> is \<open>None\<close> when the
  object has no attribute \<open>index\<close>), and as the dictionary the proxy stores in a
  message.
\<close>

record tool_call =
  tc_id :: string
  tc_name :: string
  tc_arguments :: string
  tc_type :: string
  tc_index :: "int option"

record tool_call_dict =
  td_id :: "string option"
  td_name :: string
  td_arguments :: string
  td_type :: string
  td_index :: int

text \<open>A message of the conversation, read through these keys; an absent key is \<open>None\<close>.\<close>

record chat_message =
  dm_role :: string
  dm_content :: "string option"
  dm_reasoning_content :: "string option"
  dm_tool_calls :: "tool_call_dict list option"
  dm_tool_call_id :: "string option"

text \<open>
  What \<open>client.chat.completions.create\<close> returns: \<open>choices[0].message\<close>, its finish
  reason and the three token counts of \<open>usage\<close>; or the exception it raises, which
  \<open>process_request\<close> does not catch.
\<close>

record completion_message =
  cm_role :: string
  cm_content :: "string option"
  cm_reasoning_content :: "string option"
  cm_tool_calls :: "tool_call list option"

record completion =
  choice_message :: completion_message
  finish_reason :: "string option"
  usage :: "(int \<times> int \<times> int) option"

datatype ds_outcome = Completed completion | RaisesAPIError string

record openai_tool =
  ot_type :: string
  ot_name :: string
  ot_description :: string
  ot_parameters :: json

datatype ds_event = ChatRequest "chat_message list" "openai_tool list option"
  | DSToolCall string json

text \<open>
  A \<open>DeepSeekProxy\<close> with what it reads from outside: the upstream, \<open>json.loads\<close> on
  an argument string (\<open>None\<close> when it raises), \<open>json.dumps\<close> on the flattened tool
  calls and on a content list, and the manager.
\<close>

record ds_engine =
  ds_upstream :: "nat \<Rightarrow> ds_outcome"
  ds_json_loads :: "string \<Rightarrow> json option"
  ds_dumps_tool_calls :: "tool_call_dict list \<Rightarrow> string"
  ds_dumps_content :: "content_item list \<Rightarrow> string"
  ds_manager :: "MCPManager option"

record ds_state =
  messages_copy :: "chat_message list"
  ds_iteration :: int
  assistant_msg_index :: "nat option"
  total_usage :: "int \<times> int \<times> int"
  ds_calls :: nat
  ds_dispatches :: nat
  ds_log :: "ds_event list"

datatype ds_exception = APIError string | JSONDecodeError | IndexError | TypeError

record message_obj =
  mo_content :: string
  mo_reasoning_content :: "string option"
  mo_tool_calls :: "tool_call_dict list option"

datatype ds_reply = ChatCompletion message_obj "string option" "int \<times> int \<times> int"
  | Raises ds_exception

text \<open>\<open>MCPManager.get_openai_tools\<close>.\<close>

definition get_openai_tools :: "MCPManager \<Rightarrow> openai_tool list" where
  "get_openai_tools m =
     map (\<lambda>(k, t). \<lparr>ot_type = ''function'', ot_name = tool_name t,
                      ot_description = tool_description t, ot_parameters = input_schema t\<rparr>)
         (tools m)"

text \<open>The first lines of \<open>DeepSeekProxy.process_request\<close> and \<open>process_request_stream\<close>.\<close>

definition ds_combined_tools :: "MCPManager option \<Rightarrow> openai_tool list option \<Rightarrow> openai_tool list option" where
  "ds_combined_tools m ts =
     (let combined = (case ts of None \<Rightarrow> [] | Some xs \<Rightarrow> xs)
                     @ (case m of None \<Rightarrow> [] | Some mgr \<Rightarrow> get_openai_tools mgr)
      in if combined = [] then None else Some combined)"

text \<open>
  The dictionary of a tool call, \<open>i\<close> being its position in the list
  (\<open>tc.index if hasattr(tc, 'index') else i\<close>).
\<close>

definition tool_call_to_dict :: "nat \<Rightarrow> tool_call \<Rightarrow> tool_call_dict" where
  "tool_call_to_dict i tc =
     \<lparr>td_id = Some (tc_id tc), td_name = tc_name tc, td_arguments = tc_arguments tc,
      td_type = tc_type tc, td_index = (case tc_index tc of None \<Rightarrow> int i | Some k \<Rightarrow> k)\<rparr>"

definition tool_calls_to_dicts :: "tool_call list \<Rightarrow> tool_call_dict list" where
  "tool_calls_to_dicts tcs = map (\<lambda>(i, tc). tool_call_to_dict i tc) (zip [0..<length tcs] tcs)"

text \<open>\<open>DeepSeekProxy._message_to_dict\<close>.\<close>

definition message_to_dict :: "completion_message \<Rightarrow> chat_message" where
  "message_to_dict m =
     \<lparr>dm_role = cm_role m,
      dm_content = Some (case cm_content m of None \<Rightarrow> [] | Some c \<Rightarrow> c),
      dm_reasoning_content =
        (case cm_reasoning_content m of None \<Rightarrow> None | Some r \<Rightarrow> if r = [] then None else Some r),
      dm_tool_calls =
        (case cm_tool_calls m of
           None \<Rightarrow> None
         | Some tcs \<Rightarrow> if tcs = [] then None else Some (tool_calls_to_dicts tcs)),
      dm_tool_call_id = None\<rparr>"

text \<open>\<open>DeepSeekProxy._flatten_tool_calls\<close>: the dictionaries without their id.\<close>

definition flatten_tool_calls :: "tool_call_dict list \<Rightarrow> tool_call_dict list" where
  "flatten_tool_calls tcs = map (\<lambda>tc. tc\<lparr>td_id := None\<rparr>) tcs"

text \<open>
  \<open>DeepSeekProxy._merge_assistant_message\<close>: the trailing tool messages are popped, and
  the assistant message at \<open>assistant_msg_index\<close>, when there is one, takes the old tool
  calls into its reasoning, then the new reasoning, then the new tool calls or the new
  content.
\<close>

definition merge_into :: "ds_engine \<Rightarrow> chat_message \<Rightarrow> string \<Rightarrow> string \<Rightarrow> tool_call list option \<Rightarrow> chat_message" where
  "merge_into e prev_assistant new_reasoning new_content new_tool_calls =
     (let old_reasoning0 = (case dm_reasoning_content prev_assistant of None \<Rightarrow> [] | Some r \<Rightarrow> r);
          old_tool_calls = (case dm_tool_calls prev_assistant of None \<Rightarrow> [] | Some tcs \<Rightarrow> tcs);
          tools_json = ds_dumps_tool_calls e (flatten_tool_calls old_tool_calls);
          old_reasoning =
            (if old_tool_calls \<noteq> []
             then (if old_reasoning0 \<noteq> [] then old_reasoning0 @ nl @ nl @ tools_json else tools_json)
             else old_reasoning0);
          m1 = (if new_reasoning \<noteq> []
                then prev_assistant\<lparr>dm_reasoning_content :=
                       Some (if old_reasoning \<noteq> [] then old_reasoning @ nl @ nl @ new_reasoning
                             else new_reasoning)\<rparr>
                else prev_assistant)
      in case new_tool_calls of
           None \<Rightarrow> m1\<lparr>dm_tool_calls := None, dm_content := Some new_content\<rparr>
         | Some tcs \<Rightarrow>
             if tcs \<noteq> [] then m1\<lparr>dm_tool_calls := Some (tool_calls_to_dicts tcs)\<rparr>
             else m1\<lparr>dm_tool_calls := None, dm_content := Some new_content\<rparr>)"

definition merge_assistant_message ::
  "ds_engine \<Rightarrow> chat_message list \<Rightarrow> nat option \<Rightarrow> string \<Rightarrow> string \<Rightarrow> tool_call list option
     \<Rightarrow> chat_message list" where
  "merge_assistant_message e messages idx new_reasoning new_content new_tool_calls =
     (let ms = rev (dropWhile (\<lambda>m. dm_role m = ''tool'') (rev messages))
      in case idx of
           None \<Rightarrow> ms
         | Some i \<Rightarrow>
             if i < length ms
             then ms[i := merge_into e (ms ! i) new_reasoning new_content new_tool_calls]
             else ms)"

text \<open>\<open>DeepSeekProxy._is_mcp_tool\<close>.\<close>

definition ds_is_mcp_tool :: "ds_engine \<Rightarrow> string \<Rightarrow> bool" where
  "ds_is_mcp_tool e n = (case ds_manager e of None \<Rightarrow> False | Some m \<Rightarrow> map_of (tools m) n \<noteq> None)"

text \<open>
  The loop \<open>for tc in mcp_tool_calls\<close>: the arguments are parsed
  (\<open>json.loads(...) if tc.function.arguments else {}\<close>), the tool is executed and a
  message of role \<open>tool\<close> is appended. An exception of \<open>json.loads\<close> ends the request.
\<close>

fun ds_execute_calls :: "ds_engine \<Rightarrow> tool_call list \<Rightarrow> ds_state \<Rightarrow> ds_exception option \<times> ds_state" where
  "ds_execute_calls e [] s = (None, s)"
| "ds_execute_calls e (tc # tcs) s =
     (case (if tc_arguments tc = [] then Some (JDict []) else ds_json_loads e (tc_arguments tc)) of
        None \<Rightarrow> (Some JSONDecodeError, s)
      | Some a \<Rightarrow>
          (case (case ds_manager e of
                   None \<Rightarrow> (None, s)
                 | Some m \<Rightarrow>
                     (call_tool (ds_dumps_content e) m (ds_dispatches s) (tc_name tc) a,
                      s\<lparr>ds_dispatches := Suc (ds_dispatches s),
                        ds_log := ds_log s @ [DSToolCall (tc_name tc) a]\<rparr>)) of
             (result, s1) \<Rightarrow>
               ds_execute_calls e tcs
                 (s1\<lparr>messages_copy := messages_copy s1 @
                        [\<lparr>dm_role = ''tool'', dm_content = Some (result_or_failed result),
                          dm_reasoning_content = None, dm_tool_calls = None,
                          dm_tool_call_id = Some (tc_id tc)\<rparr>]\<rparr>)))"

text \<open>
  \<open>final_msg = messages_copy[assistant_msg_index]\<close> and the reply built from it; the
  index can be out of range after the merge popped messages.
\<close>

definition with_final_msg :: "ds_state \<Rightarrow> (chat_message \<Rightarrow> ds_reply) \<Rightarrow> ds_reply" where
  "with_final_msg s f =
     (case assistant_msg_index s of
        None \<Rightarrow> Raises TypeError
      | Some i \<Rightarrow> if i < length (messages_copy s) then f (messages_copy s ! i) else Raises IndexError)"

definition get_content :: "chat_message \<Rightarrow> string" where
  "get_content m = (case dm_content m of None \<Rightarrow> [] | Some c \<Rightarrow> c)"

definition get_reasoning_content :: "chat_message \<Rightarrow> string" where
  "get_reasoning_content m = (case dm_reasoning_content m of None \<Rightarrow> [] | Some c \<Rightarrow> c)"

definition final_reply :: "ds_state \<Rightarrow> string option \<Rightarrow> ds_reply" where
  "final_reply s fr =
     with_final_msg s (\<lambda>final_msg.
       ChatCompletion \<lparr>mo_content = get_content final_msg,
                       mo_reasoning_content = Some (get_reasoning_content final_msg),
                       mo_tool_calls = None\<rparr> fr (total_usage s))"

definition tool_calls_reply :: "ds_state \<Rightarrow> (chat_message \<Rightarrow> tool_call_dict list) \<Rightarrow> ds_reply" where
  "tool_calls_reply s tcs =
     with_final_msg s (\<lambda>final_msg.
       ChatCompletion \<lparr>mo_content = get_content final_msg,
                       mo_reasoning_content = Some (get_reasoning_content final_msg),
                       mo_tool_calls = Some (tcs final_msg)\<rparr> (Some ''tool_calls'') (total_usage s))"

text \<open>The reply after the loop (UTF-8 of the words for "maximum iterations reached").\<close>

definition ds_max_iterations_marker :: string where
  "ds_max_iterations_marker = [CHR 0xE8, CHR 0xBE, CHR 0xBE, CHR 0xE5, CHR 0x88, CHR 0xB0, CHR 0xE6,
     CHR 0x9C, CHR 0x80, CHR 0xE5, CHR 0xA4, CHR 0xA7, CHR 0xE8, CHR 0xBF, CHR 0xAD, CHR 0xE4,
     CHR 0xBB, CHR 0xA3, CHR 0xE6, CHR 0xAC, CHR 0xA1, CHR 0xE6, CHR 0x95, CHR 0xB0]"

definition ds_max_iterations_reply :: "ds_state \<Rightarrow> ds_reply" where
  "ds_max_iterations_reply s =
     ChatCompletion \<lparr>mo_content = ds_max_iterations_marker, mo_reasoning_content = None,
                     mo_tool_calls = None\<rparr> (Some ''length'') (total_usage s)"

definition add_usage :: "int \<times> int \<times> int \<Rightarrow> (int \<times> int \<times> int) option \<Rightarrow> int \<times> int \<times> int" where
  "add_usage t u =
     (case u of
        None \<Rightarrow> t
      | Some (p, c, n) \<Rightarrow> (case t of (tp, tc, tn) \<Rightarrow> (tp + p, tc + c, tn + n)))"

text \<open>
  One pass of the loop of \<open>DeepSeekProxy.process_request\<close>. \<open>Some r\<close> is \<open>return r\<close>
  (or the exception that ends the request); \<open>None\<close> is \<open>continue\<close>. The detailed token
  counts of \<open>usage\<close>, the id, the time stamp and the system fingerprint of the reply
  are left out.
\<close>

definition ds_loop_body ::
  "ds_engine \<Rightarrow> bool \<Rightarrow> openai_tool list option \<Rightarrow> ds_state \<Rightarrow> ds_reply option \<times> ds_state" where
  "ds_loop_body e execute_mcp_tools combined s =
     (let s1 = s\<lparr>ds_calls := Suc (ds_calls s),
                 ds_log := ds_log s @ [ChatRequest (messages_copy s) combined]\<rparr>
      in case ds_upstream e (ds_calls s) of
           RaisesAPIError m \<Rightarrow> (Some (Raises (APIError m)), s1)
         | Completed response \<Rightarrow>
             (let message = choice_message response;
                  s2 = s1\<lparr>total_usage := add_usage (total_usage s1) (usage response)\<rparr>;
                  new_reasoning = (case cm_reasoning_content message of None \<Rightarrow> [] | Some r \<Rightarrow> r);
                  new_content = (case cm_content message of None \<Rightarrow> [] | Some c \<Rightarrow> c);
                  new_tool_calls = cm_tool_calls message;
                  s3 = (if ds_iteration s2 = 0
                        then s2\<lparr>messages_copy := messages_copy s2 @ [message_to_dict message],
                                assistant_msg_index := Some (length (messages_copy s2))\<rparr>
                        else s2\<lparr>messages_copy :=
                                  merge_assistant_message e (messages_copy s2)
                                    (assistant_msg_index s2) new_reasoning new_content
                                    new_tool_calls\<rparr>)
              in case new_tool_calls of
                   None \<Rightarrow> (Some (final_reply s3 (finish_reason response)), s3)
                 | Some tcs \<Rightarrow>
                     if finish_reason response = Some ''stop''
                     then (Some (final_reply s3 (finish_reason response)), s3)
                     else if tcs \<noteq> [] \<and> execute_mcp_tools \<and> ds_manager e \<noteq> None
                     then
                       (let mcp_tool_calls = filter (\<lambda>tc. ds_is_mcp_tool e (tc_name tc)) tcs;
                            non_mcp_tool_calls = filter (\<lambda>tc. \<not> ds_is_mcp_tool e (tc_name tc)) tcs
                        in if mcp_tool_calls \<noteq> []
                           then (case ds_execute_calls e mcp_tool_calls s3 of
                                   (Some ex, s4) \<Rightarrow> (Some (Raises ex), s4)
                                 | (None, s4) \<Rightarrow> (None, s4))
                           else if non_mcp_tool_calls \<noteq> []
                           then (Some (tool_calls_reply s3
                                         (\<lambda>m. tool_calls_to_dicts non_mcp_tool_calls)), s3)
                           else (Some (tool_calls_reply s3
                                   (\<lambda>m. case dm_tool_calls m of None \<Rightarrow> [] | Some d \<Rightarrow> d)), s3))
                     else (Some (tool_calls_reply s3
                             (\<lambda>m. case dm_tool_calls m of None \<Rightarrow> [] | Some d \<Rightarrow> d)), s3)))"

text \<open>\<open>max_iterations = 10\<close>, the local constant of both \<open>process_request\<close> and
  \<open>process_request_stream\<close>.\<close>

definition ds_max_iterations :: int where
  "ds_max_iterations = 10"

text \<open>\<open>while iteration < max_iterations\<close>, with the \<open>iteration += 1\<close> before \<open>continue\<close>.\<close>

function ds_process_loop ::
  "ds_engine \<Rightarrow> bool \<Rightarrow> openai_tool list option \<Rightarrow> ds_state \<Rightarrow> ds_reply \<times> ds_state" where
  "ds_process_loop e execute_mcp_tools combined s =
     (if ds_iteration s < ds_max_iterations
      then (case ds_loop_body e execute_mcp_tools combined s of
              (Some r, s') \<Rightarrow> (r, s')
            | (None, s') \<Rightarrow>
                ds_process_loop e execute_mcp_tools combined
                  (s'\<lparr>ds_iteration := ds_iteration s + 1\<rparr>))
      else (ds_max_iterations_reply s, s))"
  by pat_completeness auto
termination
  by (relation "measure (\<lambda>(e, x, c, s). nat (ds_max_iterations - ds_iteration s))") auto

declare ds_process_loop.simps [simp del]

definition ds_init_state :: "chat_message list \<Rightarrow> ds_state" where
  "ds_init_state messages =
     \<lparr>messages_copy = messages, ds_iteration = 0, assistant_msg_index = None,
      total_usage = (0, 0, 0), ds_calls = 0, ds_dispatches = 0, ds_log = []\<rparr>"

text \<open>\<open>DeepSeekProxy.process_request\<close>.\<close>

definition ds_process_request ::
  "ds_engine \<Rightarrow> chat_message list \<Rightarrow> openai_tool list option \<Rightarrow> bool \<Rightarrow> ds_reply \<times> ds_state" where
  "ds_process_request e messages ts execute_mcp_tools =
     ds_process_loop e execute_mcp_tools (ds_combined_tools (ds_manager e) ts)
       (ds_init_state messages)"

text \<open>
  For the examples: a DeepSeek engine over the example manager whose model calls the
  tool \<open>s_t\<close> again and again, and a client that declares a tool of the same name.
\<close>

definition ds_looping_engine :: ds_engine where
  "ds_looping_engine =
     \<lparr>ds_upstream = (\<lambda>k. Completed
        \<lparr>choice_message = \<lparr>cm_role = ''assistant'', cm_content = None,
            cm_reasoning_content = Some ''thinking'',
            cm_tool_calls = Some [\<lparr>tc_id = ''call_1'', tc_name = ''s_t'', tc_arguments = [],
                                   tc_type = ''function'', tc_index = Some 0\<rparr>]\<rparr>,
          finish_reason = Some ''tool_calls'', usage = None\<rparr>),
      ds_json_loads = (\<lambda>a. Some (JDict [])), ds_dumps_tool_calls = (\<lambda>t. ''{}''),
      ds_dumps_content = (\<lambda>c. ''[]''), ds_manager = Some example_manager\<rparr>"

definition client_tool :: openai_tool where
  "client_tool = \<lparr>ot_type = ''function'', ot_name = ''s_t'',
                  ot_description = ''client tool'', ot_parameters = JDict []\<rparr>"

definition user_message :: "string \<Rightarrow> chat_message" where
  "user_message t = \<lparr>dm_role = ''user'', dm_content = Some t, dm_reasoning_content = None,
                     dm_tool_calls = None, dm_tool_call_id = None\<rparr>"

text \<open>The requests of a DeepSeek trace, and the tool lists they carry.\<close>

fun ds_requested_tools :: "ds_event \<Rightarrow> openai_tool list option list" where
  "ds_requested_tools (ChatRequest ms ts) = [ts]"
| "ds_requested_tools (DSToolCall n a) = []"

definition ds_tools_sent :: "ds_event list \<Rightarrow> openai_tool list option list" where
  "ds_tools_sent evs = concat (map ds_requested_tools evs)"





text \<open>The upstream calls of a DeepSeek trace.\<close>

fun is_chat_request :: "ds_event \<Rightarrow> bool" where
  "is_chat_request (ChatRequest ms ts) = True"
| "is_chat_request (DSToolCall n a) = False"

definition ds_upstream_calls :: "ds_event list \<Rightarrow> nat" where
  "ds_upstream_calls evs = length (filter is_chat_request evs)"


text \<open>
  The names a tool list declares, in order, for each of the two dialects, and the names
  of the tools the manager has registered.
\<close>

fun declared_names :: "gtool \<Rightarrow> string list" where
  "declared_names (FunctionDeclarations ds) = map d_name ds"
| "declared_names (OtherTool j) = []"

definition gemini_tool_names :: "gtool list option \<Rightarrow> string list" where
  "gemini_tool_names ts = concat (map declared_names (case ts of None \<Rightarrow> [] | Some xs \<Rightarrow> xs))"

definition openai_tool_names :: "openai_tool list option \<Rightarrow> string list" where
  "openai_tool_names ts = map ot_name (case ts of None \<Rightarrow> [] | Some xs \<Rightarrow> xs)"

definition manager_tool_names :: "MCPManager option \<Rightarrow> string list" where
  "manager_tool_names m = (case m of None \<Rightarrow> [] | Some mgr \<Rightarrow> map (\<lambda>(k, t). tool_name t) (tools mgr))"

text \<open>A Gemini client that declares a tool named like the manager's.\<close>

definition client_group :: gtool where
  "client_group = FunctionDeclarations
     [\<lparr>d_name = ''s_t'', d_description = ''client tool'', d_parameters = None\<rparr>]"

section \<open>The tool registry (mcp\_servers/\_\_init\_\_.py)\<close>

subsection \<open>The side-file of enabled servers\<close>

text \<open>
  The file \<open>enabled.txt\<close> is its text, \<open>None\<close> when the file does not exist. Reading
  it in text mode ends a line at a line feed or a carriage return.
\<close>

definition is_line_end :: "char \<Rightarrow> bool" where
  "is_line_end c = (c = CHR 0x0A \<or> c = CHR 0x0D)"

fun split_lines :: "string \<Rightarrow> string list" where
  "split_lines [] = [[]]"
| "split_lines (c # cs) =
     (if is_line_end c then [] # split_lines cs
      else (case split_lines cs of [] \<Rightarrow> [[c]] | l # ls \<Rightarrow> (c # l) # ls))"

text \<open>\<open>line.startswith('#')\<close>.\<close>

definition is_comment :: "string \<Rightarrow> bool" where
  "is_comment l = (take 1 l = ''#'')"

text \<open>\<open>get_enabled_servers\<close>.\<close>

definition get_enabled_servers :: "string option \<Rightarrow> string set" where
  "get_enabled_servers f =
     (case f of
        None \<Rightarrow> {}
      | Some t \<Rightarrow> set (filter (\<lambda>l. l \<noteq> [] \<and> \<not> is_comment l) (map strip (split_lines t))))"






subsection \<open>Reading a descriptor: \<open>json.load\<close>\<close>

text \<open>
  A model of the library function \<open>json.load\<close> on the text of a file, for evaluating
  the registry on concrete descriptors: whitespace, objects, arrays, strings with the
  one-letter escapes, integers and the three literals. It accepts no comment, as the
  library accepts none. (It also refuses what the library accepts beyond this: numbers
  with a fraction or an exponent, \<open>\u\<close> escapes, \<open>NaN\<close> and \<open>Infinity\<close>.)
  \<open>None\<close> is the exception the library raises.
\<close>

datatype token = TLBrace | TRBrace | TLBrack | TRBrack | TColon | TComma
  | TString string | TNumber string | TWord string

datatype lexmode = Idle | InStr string bool | InNum string | InWord string

definition is_json_ws :: "char \<Rightarrow> bool" where
  "is_json_ws c = (c \<in> set [CHR 0x20, CHR 0x09, CHR 0x0A, CHR 0x0D])"

definition is_digit :: "char \<Rightarrow> bool" where
  "is_digit c = (c \<in> set ''0123456789'')"

definition is_letter :: "char \<Rightarrow> bool" where
  "is_letter c = (c \<in> set ''abcdefghijklmnopqrstuvwxyz'')"

definition unescape :: "char \<Rightarrow> char option" where
  "unescape c =
     (if c = CHR 0x22 then Some (CHR 0x22)
      else if c = CHR 0x5C then Some (CHR 0x5C)
      else if c = CHR ''/'' then Some (CHR ''/'')
      else if c = CHR ''n'' then Some (CHR 0x0A)
      else if c = CHR ''t'' then Some (CHR 0x09)
      else if c = CHR ''r'' then Some (CHR 0x0D)
      else if c = CHR ''b'' then Some (CHR 0x08)
      else if c = CHR ''f'' then Some (CHR 0x0C)
      else None)"

definition punctuation :: "char \<Rightarrow> token option" where
  "punctuation c =
     (if c = CHR ''{'' then Some TLBrace
      else if c = CHR ''}'' then Some TRBrace
      else if c = CHR ''['' then Some TLBrack
      else if c = CHR '']'' then Some TRBrack
      else if c = CHR '':'' then Some TColon
      else if c = CHR '','' then Some TComma
      else None)"

function lexer :: "lexmode \<Rightarrow> string \<Rightarrow> token list option" where
  "lexer Idle [] = Some []"
| "lexer Idle (c # cs) =
     (if is_json_ws c then lexer Idle cs
      else if punctuation c \<noteq> None then map_option (Cons (the (punctuation c))) (lexer Idle cs)
      else if c = CHR 0x22 then lexer (InStr [] False) cs
      else if c = CHR ''-'' \<or> is_digit c then lexer (InNum [c]) cs
      else if is_letter c then lexer (InWord [c]) cs
      else None)"
| "lexer (InStr acc esc) [] = None"
| "lexer (InStr acc esc) (c # cs) =
     (if esc then (case unescape c of None \<Rightarrow> None | Some d \<Rightarrow> lexer (InStr (d # acc) False) cs)
      else if c = CHR 0x5C then lexer (InStr acc True) cs
      else if c = CHR 0x22 then map_option (Cons (TString (rev acc))) (lexer Idle cs)
      else if (of_char c :: nat) < 32 then None
      else lexer (InStr (c # acc) False) cs)"
| "lexer (InNum acc) [] = Some [TNumber (rev acc)]"
| "lexer (InNum acc) (c # cs) =
     (if is_digit c then lexer (InNum (c # acc)) cs
      else map_option (Cons (TNumber (rev acc))) (lexer Idle (c # cs)))"
| "lexer (InWord acc) [] = Some [TWord (rev acc)]"
| "lexer (InWord acc) (c # cs) =
     (if is_letter c then lexer (InWord (c # acc)) cs
      else map_option (Cons (TWord (rev acc))) (lexer Idle (c # cs)))"
  by pat_completeness auto
termination
  by (relation "measure (\<lambda>(m, s). 2 * length s + (case m of Idle \<Rightarrow> 0 | _ \<Rightarrow> 1))") auto

text \<open>The value of a number token: an optional sign and digits without a leading zero.\<close>

definition digit_value :: "char \<Rightarrow> nat" where
  "digit_value c = of_char c - 48"

definition digits_value :: "string \<Rightarrow> int option" where
  "digits_value ds =
     (if ds = [] \<or> (length ds > 1 \<and> hd ds = CHR ''0'') \<or> \<not> list_all is_digit ds then None
      else Some (int (foldl (\<lambda>a c. 10 * a + digit_value c) 0 ds)))"

definition number_value :: "string \<Rightarrow> int option" where
  "number_value x =
     (case x of
        [] \<Rightarrow> None
      | c # cs \<Rightarrow> if c = CHR ''-'' then map_option uminus (digits_value cs) else digits_value (c # cs))"

text \<open>
  Storing a key in a dictionary: the value of a key that is there is replaced in place,
  a new key goes to the end.
\<close>

fun dict_set :: "'k \<Rightarrow> 'v \<Rightarrow> ('k \<times> 'v) list \<Rightarrow> ('k \<times> 'v) list" where
  "dict_set k v [] = [(k, v)]"
| "dict_set k v ((k', v') # kvs) =
     (if k = k' then (k, v) # kvs else (k', v') # dict_set k v kvs)"

text \<open>
  The parser, on the tokens. The first argument bounds the number of steps; every step
  consumes a token, so the number of tokens is enough.
\<close>

fun parse_value :: "nat \<Rightarrow> token list \<Rightarrow> (json \<times> token list) option"
  and parse_elements :: "nat \<Rightarrow> json list \<Rightarrow> token list \<Rightarrow> (json \<times> token list) option"
  and parse_members :: "nat \<Rightarrow> (string \<times> json) list \<Rightarrow> token list \<Rightarrow> (json \<times> token list) option"
where
  "parse_value 0 ts = None"
| "parse_value (Suc n) [] = None"
| "parse_value (Suc n) (t # ts) =
     (case t of
        TString s \<Rightarrow> Some (JStr s, ts)
      | TNumber x \<Rightarrow> (case number_value x of None \<Rightarrow> None | Some i \<Rightarrow> Some (JNum i, ts))
      | TWord w \<Rightarrow>
          if w = ''true'' then Some (JBool True, ts)
          else if w = ''false'' then Some (JBool False, ts)
          else if w = ''null'' then Some (JNull, ts)
          else None
      | TLBrack \<Rightarrow>
          (case ts of TRBrack # ts' \<Rightarrow> Some (JList [], ts') | _ \<Rightarrow> parse_elements n [] ts)
      | TLBrace \<Rightarrow>
          (case ts of TRBrace # ts' \<Rightarrow> Some (JDict [], ts') | _ \<Rightarrow> parse_members n [] ts)
      | _ \<Rightarrow> None)"
| "parse_elements 0 acc ts = None"
| "parse_elements (Suc n) acc ts =
     (case parse_value n ts of
        Some (v, TComma # ts') \<Rightarrow> parse_elements n (acc @ [v]) ts'
      | Some (v, TRBrack # ts') \<Rightarrow> Some (JList (acc @ [v]), ts')
      | _ \<Rightarrow> None)"
| "parse_members 0 acc ts = None"
| "parse_members (Suc n) acc ts =
     (case ts of
        TString k # TColon # ts1 \<Rightarrow>
          (case parse_value n ts1 of
             Some (v, TComma # ts') \<Rightarrow> parse_members n (dict_set k v acc) ts'
           | Some (v, TRBrace # ts') \<Rightarrow> Some (JDict (dict_set k v acc), ts')
           | _ \<Rightarrow> None)
      | _ \<Rightarrow> None)"

definition json_loads :: "string \<Rightarrow> json option" where
  "json_loads t =
     (case lexer Idle t of
        None \<Rightarrow> None
      | Some ts \<Rightarrow> (case parse_value (Suc (length ts)) ts of Some (v, []) \<Rightarrow> Some v | _ \<Rightarrow> None))"

subsection \<open>Scanning the registry\<close>

text \<open>
  An entry of \<open>os.listdir(MCP_SERVERS_DIR)\<close>: its name, whether it is a directory,
  its \<open>config.json\<close> (absent, impossible to open, or a text) and whether it holds a
  \<open>server.py\<close>.
\<close>

datatype config_file = NoFile | OpenFails | FileText string

record dir_entry =
  e_name :: string
  e_is_dir :: bool
  e_config :: config_file
  e_server_py :: bool

record server_info =
  si_path :: string
  si_server_file :: "string option"
  si_enabled :: bool
  si_config :: "(string \<times> json) list"
  si_description :: json
  si_type :: json

text \<open>\<open>config.get(key, default)\<close> and \<open>config.get(key)\<close> on a dictionary.\<close>

definition dict_get :: "(string \<times> json) list \<Rightarrow> string \<Rightarrow> json \<Rightarrow> json" where
  "dict_get d k dflt = (case map_of d k of None \<Rightarrow> dflt | Some v \<Rightarrow> v)"

text \<open>\<open>name.startswith('_') or name.startswith('.')\<close>.\<close>

definition is_special :: "string \<Rightarrow> bool" where
  "is_special n = (take 1 n = ''_'' \<or> take 1 n = ''.'')"

text \<open>
  The exception that leaves \<open>get_available_servers\<close>: \<open>config.get\<close> on a descriptor
  that parsed to something else than a dictionary, outside the \<open>try\<close>.
\<close>

datatype scan_error = AttributeError

text \<open>
  The body of the loop of \<open>get_available_servers\<close> for one entry: \<open>Inr None\<close> is
  \<open>continue\<close>, \<open>Inr (Some info)\<close> is the record stored under the name of the entry.
  \<open>json_load\<close> is the library function, \<open>None\<close> when it raises.
\<close>

definition scan_entry ::
  "(string \<Rightarrow> json option) \<Rightarrow> string set \<Rightarrow> string \<Rightarrow> dir_entry \<Rightarrow> scan_error + server_info option" where
  "scan_entry json_load en dir d =
     (let server_dir = dir @ ''/'' @ e_name d
      in if \<not> e_is_dir d \<or> is_special (e_name d) then Inr None
         else case e_config d of
                NoFile \<Rightarrow> Inr None
              | OpenFails \<Rightarrow> Inr None
              | FileText t \<Rightarrow>
                  (case json_load t of
                     None \<Rightarrow> Inr None
                   | Some (JDict config) \<Rightarrow>
                       (let server_type = dict_get config ''type'' (JStr ''stdio'');
                            server_file = server_dir @ ''/server.py''
                        in if server_type = JStr ''stdio'' \<and> \<not> e_server_py d then Inr None
                           else Inr (Some
                                  \<lparr>si_path = server_dir,
                                   si_server_file =
                                     (if server_type = JStr ''stdio'' then Some server_file else None),
                                   si_enabled = (e_name d \<in> en),
                                   si_config = config,
                                   si_description = dict_get config ''description'' (JStr []),
                                   si_type = server_type\<rparr>))
                   | Some other \<Rightarrow> Inl AttributeError))"

text \<open>The loop \<open>for name in os.listdir(MCP_SERVERS_DIR)\<close>, with the dictionary so far.\<close>

fun scan :: "(string \<Rightarrow> json option) \<Rightarrow> string set \<Rightarrow> string \<Rightarrow> dir_entry list
    \<Rightarrow> (string \<times> server_info) list \<Rightarrow> scan_error + (string \<times> server_info) list" where
  "scan json_load en dir [] found = Inr found"
| "scan json_load en dir (d # ds) found =
     (case scan_entry json_load en dir d of
        Inl err \<Rightarrow> Inl err
      | Inr None \<Rightarrow> scan json_load en dir ds found
      | Inr (Some info) \<Rightarrow> scan json_load en dir ds (dict_set (e_name d) info found))"

text \<open>\<open>get_available_servers\<close>, on the side-file and the listing of the directory.\<close>

definition get_available_servers ::
  "(string \<Rightarrow> json option) \<Rightarrow> string option \<Rightarrow> string \<Rightarrow> dir_entry list
     \<Rightarrow> scan_error + (string \<times> server_info) list" where
  "get_available_servers json_load enabled_file dir listing =
     scan json_load (get_enabled_servers enabled_file) dir listing []"

text \<open>
  For the examples: the descriptor of a remote server, once as plain JSON and once with
  a line comment and a block comment, and two directories.
\<close>

definition quote :: "string \<Rightarrow> string" where
  "quote s = [CHR 0x22] @ s @ [CHR 0x22]"



definition remote_dir :: "string \<Rightarrow> string \<Rightarrow> dir_entry" where
  "remote_dir n t = \<lparr>e_name = n, e_is_dir = True, e_config = FileText t, e_server_py = False\<rparr>"

section \<open>Loading the manager (mcp\_client.py)\<close>

text \<open>\<open>MCPServerType(server_type_str)\<close>; \<open>None\<close> is its \<open>ValueError\<close>.\<close>

definition parse_server_type :: "json \<Rightarrow> MCPServerType option" where
  "parse_server_type j =
     (if j = JStr ''stdio'' then Some STDIO
      else if j = JStr ''streamableHttp'' then Some STREAMABLE_HTTP
      else if j = JStr ''sse'' then Some SSE
      else None)"

text \<open>
  What can end \<open>_load_from_directory\<close> early, inside its \<open>try\<close>: the exception of the
  scan, or the \<open>TypeError\<close> of \<open>[info["server_file"]] + config.get("args", [])\<close> when
  the descriptor's \<open>args\<close> is no list.
\<close>

datatype load_error = ScanFailed scan_error | ArgsTypeError

text \<open>
  The body of the loop of \<open>_load_from_directory\<close> for an enabled server: the
  configuration stored under its name.
\<close>

definition server_config :: "string \<Rightarrow> server_info \<Rightarrow> load_error + MCPServerConfig" where
  "server_config name info =
     (let config = si_config info;
          server_type_str = dict_get config ''type'' (JStr ''stdio'');
          st = (case parse_server_type server_type_str of None \<Rightarrow> STDIO | Some t \<Rightarrow> t)
      in if st = STDIO
         then (case dict_get config ''args'' (JList []) of
                 JList xs \<Rightarrow>
                   Inr \<lparr>cfg_name = name, server_type = st,
                        cfg_description = dict_get config ''description'' (JStr []),
                        enabled = True,
                        command = Some (dict_get config ''command'' (JStr ''python'')),
                        args = Some ((case si_server_file info of None \<Rightarrow> JNull | Some f \<Rightarrow> JStr f) # xs),
                        env = map_of config ''env'', url = None, headers = None\<rparr>
               | other \<Rightarrow> Inl ArgsTypeError)
         else Inr \<lparr>cfg_name = name, server_type = st,
                   cfg_description = dict_get config ''description'' (JStr []),
                   enabled = True, command = None, args = None, env = None,
                   url = map_of config ''url'', headers = map_of config ''headers''\<rparr>)"

text \<open>
  The loop \<open>for name, info in servers.items()\<close>: the exception that ended it, if any,
  the dictionary \<open>self.servers\<close> as it stands, and \<open>loaded_count\<close>.
\<close>

fun load_servers :: "(string \<times> server_info) list \<Rightarrow> (string \<times> MCPServerConfig) list \<Rightarrow> nat
    \<Rightarrow> load_error option \<times> (string \<times> MCPServerConfig) list \<times> nat" where
  "load_servers [] svs loaded_count = (None, svs, loaded_count)"
| "load_servers ((name, info) # rest) svs loaded_count =
     (if \<not> si_enabled info then load_servers rest svs loaded_count
      else case server_config name info of
             Inl err \<Rightarrow> (Some err, svs, loaded_count)
           | Inr cfg \<Rightarrow> load_servers rest (dict_set name cfg svs) (Suc loaded_count))"

text \<open>
  The outside of \<open>start_server\<close>: \<open>launch config\<close> is what \<open>create_connection(config)\<close>
  followed by \<open>connection.start()\<close> gives, \<open>None\<close> when the start fails, otherwise the
  tool server's replies and the tools it listed (local name, description, schema).
\<close>

record launched =
  l_reply :: "nat \<Rightarrow> string \<Rightarrow> json \<Rightarrow> rpc_response option"
  l_tools :: "(string \<times> string \<times> json) list"

text \<open>The registration of the tools of a started server, \<open>self.tools[full_name] = tool\<close>.\<close>

fun register_tools :: "string \<Rightarrow> (string \<times> string \<times> json) list \<Rightarrow> (string \<times> MCPTool) list
    \<Rightarrow> (string \<times> MCPTool) list" where
  "register_tools name [] ts = ts"
| "register_tools name ((n, d, sch) # rest) ts =
     register_tools name rest
       (dict_set (name @ ''_'' @ n)
          \<lparr>tool_name = name @ ''_'' @ n, tool_description = d, input_schema = sch,
            server_name = name\<rparr> ts)"

text \<open>
  \<open>MCPManager.start_server\<close>. The second component of the state lists the
  configurations for which a start was attempted, in order.
\<close>

definition start_server ::
  "(MCPServerConfig \<Rightarrow> launched option) \<Rightarrow> string \<Rightarrow> MCPManager \<times> MCPServerConfig list
     \<Rightarrow> bool \<times> MCPManager \<times> MCPServerConfig list" where
  "start_server launch name st =
     (case st of (m, started) \<Rightarrow>
        (case map_of (servers m) name of
           None \<Rightarrow> (False, m, started)
         | Some config \<Rightarrow>
             if map_of (connections m) name \<noteq> None then (True, m, started)
             else (case launch config of
                     None \<Rightarrow> (False, m, started @ [config])
                   | Some l \<Rightarrow>
                       (True,
                        m\<lparr>connections := dict_set name
                              \<lparr>conn_class = server_type config, conn_reply = l_reply l\<rparr>
                              (connections m),
                          tools := register_tools name (l_tools l) (tools m)\<rparr>,
                        started @ [config]))))"

text \<open>\<open>MCPManager.start_enabled_servers\<close>, over the items of \<open>self.servers\<close>.\<close>

fun start_each :: "(MCPServerConfig \<Rightarrow> launched option) \<Rightarrow> (string \<times> MCPServerConfig) list
    \<Rightarrow> MCPManager \<times> MCPServerConfig list \<Rightarrow> MCPManager \<times> MCPServerConfig list" where
  "start_each launch [] st = st"
| "start_each launch ((name, server) # rest) st =
     (if enabled server then start_each launch rest (snd (start_server launch name st))
      else start_each launch rest st)"

definition start_enabled_servers ::
  "(MCPServerConfig \<Rightarrow> launched option) \<Rightarrow> MCPManager \<times> MCPServerConfig list
     \<Rightarrow> MCPManager \<times> MCPServerConfig list" where
  "start_enabled_servers launch st = start_each launch (servers (fst st)) st"

text \<open>
  \<open>MCPManager._load_from_directory\<close>, given what \<open>get_available_servers()\<close> returned
  or raised: the value returned, the manager and the start attempts.
\<close>

definition load_from_directory ::
  "(MCPServerConfig \<Rightarrow> launched option) \<Rightarrow> scan_error + (string \<times> server_info) list \<Rightarrow> MCPManager
     \<Rightarrow> bool \<times> MCPManager \<times> MCPServerConfig list" where
  "load_from_directory launch available m =
     (case available of
        Inl err \<Rightarrow> (False, m, [])
      | Inr avail \<Rightarrow>
          (case load_servers avail (servers m) 0 of
             (Some err, svs, loaded_count) \<Rightarrow> (False, m\<lparr>servers := svs\<rparr>, [])
           | (None, svs, loaded_count) \<Rightarrow>
               if loaded_count > 0
               then (True, start_enabled_servers launch (m\<lparr>servers := svs\<rparr>, []))
               else (True, m\<lparr>servers := svs\<rparr>, [])))"

text \<open>\<open>MCPManager.__init__\<close>.\<close>

definition MCPManager_init ::
  "(MCPServerConfig \<Rightarrow> launched option) \<Rightarrow> scan_error + (string \<times> server_info) list
     \<Rightarrow> bool \<times> MCPManager \<times> MCPServerConfig list" where
  "MCPManager_init launch available =
     load_from_directory launch available \<lparr>servers = [], connections = [], tools = []\<rparr>"

text \<open>
  For the examples: a descriptor with a transport type that the manager does not know,
  a listing with it and a stdio server, and a side-file that enables both.
\<close>

definition websocket_descriptor :: string where
  "websocket_descriptor =
     ''{'' @ quote ''type'' @ '': '' @ quote ''websocket'' @ '', ''
     @ quote ''command'' @ '': '' @ quote ''node'' @ '', ''
     @ quote ''args'' @ '': ['' @ quote ''--fast'' @ '']}''"

definition example_listing :: "dir_entry list" where
  "example_listing =
     [\<lparr>e_name = ''files'', e_is_dir = True, e_config = FileText ''{}'', e_server_py = True\<rparr>,
      remote_dir ''ws'' websocket_descriptor]"

definition example_enabled_file :: "string option" where
  "example_enabled_file = Some (''files'' @ nl @ ''ws'' @ nl)"

definition no_launch :: "MCPServerConfig \<Rightarrow> launched option" where
  "no_launch c = None"

text \<open>
  The same directory with a descriptor whose \<open>args\<close> is a string instead of a list.
\<close>

definition bad_args_descriptor :: string where
  "bad_args_descriptor =
     ''{'' @ quote ''type'' @ '': '' @ quote ''websocket'' @ '', ''
     @ quote ''args'' @ '': '' @ quote ''--fast'' @ ''}''"

definition bad_args_listing :: "dir_entry list" where
  "bad_args_listing =
     [\<lparr>e_name = ''files'', e_is_dir = True, e_config = FileText ''{}'', e_server_py = True\<rparr>,
      remote_dir ''ws'' bad_args_descriptor]"

text \<open>A tool server that starts whenever it is asked to, with no tools.\<close>

definition ready_launch :: "MCPServerConfig \<Rightarrow> launched option" where
  "ready_launch c = Some \<lparr>l_reply = (\<lambda>k n a. None), l_tools = []\<rparr>"

section \<open>Theorems\<close>

subsection \<open>C8: what \<open>call_tool\<close> returns\<close>

text \<open>
  C8, as stated, fails: two text items \<open>a\<close> and \<open>b\<close> do not come back as their
  concatenation \<open>ab\<close>; the stdio adapter returns \<open>a\<close>, a newline, \<open>b\<close>.
\<close>

theorem C8_counterexample:
  "stdio_call_tool (\<lambda>c. [])
     (Some \<lparr>resp_result = Some \<lparr>content = Some
        [\<lparr>item_type = Some ''text'', item_text = Some ''a''\<rparr>,
         \<lparr>item_type = Some ''text'', item_text = Some ''b''\<rparr>]\<rparr>,
       resp_error = None\<rparr>)
   \<noteq> Some (concat [''a'', ''b''])"
  by (simp add: stdio_call_tool_def nl_def)

text \<open>
  C8, amended: for each of the three adapters, a reply that carries a result yields the
  texts of the items of type \<open>"text"\<close>, in arrival order, joined by a newline, and the
  JSON dump of the content list when no item has that type; a reply that carries an
  error and no result yields the error prefix followed by the error's message.
\<close>

theorem C8_call_tool_reply:
  "(call = stdio_call_tool \<or> call = http_call_tool \<or> call = sse_call_tool) \<longrightarrow>
     call dumps (Some \<lparr>resp_result = Some \<lparr>content = Some c\<rparr>, resp_error = e\<rparr>)
       = Some (if text_parts c \<noteq> [] then join nl (text_parts c) else dumps c)
   \<and> call dumps (Some \<lparr>resp_result = None, resp_error = Some \<lparr>message = Some m\<rparr>\<rparr>)
       = Some (err_prefix @ m)"
  by (auto simp: stdio_call_tool_def http_call_tool_def sse_call_tool_def)

theorem C8_call_tool_reply_witness:
  "sse_call_tool (\<lambda>c. ''[]'')
     (Some \<lparr>resp_result = Some \<lparr>content = Some
        [\<lparr>item_type = Some ''text'', item_text = Some ''a''\<rparr>,
         \<lparr>item_type = Some ''image'', item_text = None\<rparr>,
         \<lparr>item_type = Some ''text'', item_text = Some ''b''\<rparr>]\<rparr>,
       resp_error = None\<rparr>)
     = Some (''a'' @ nl @ ''b'')
   \<and> sse_call_tool (\<lambda>c. ''[]'')
       (Some \<lparr>resp_result = None, resp_error = Some \<lparr>message = Some ''boom''\<rparr>\<rparr>)
     = Some (err_prefix @ ''boom'')"
  using C8_call_tool_reply [of sse_call_tool "\<lambda>c. ''[]''"
      "[\<lparr>item_type = Some ''text'', item_text = Some ''a''\<rparr>,
        \<lparr>item_type = Some ''image'', item_text = None\<rparr>,
        \<lparr>item_type = Some ''text'', item_text = Some ''b''\<rparr>]" None "''boom''"]
  by simp

subsection \<open>C4: history rewriting\<close>

lemma scan_down_None:
  "scan_down cs n0 k = None \<Longrightarrow> k \<le> length cs \<Longrightarrow> n0 \<le> i \<Longrightarrow> i < k \<Longrightarrow> \<not> has_function_response (cs ! i)"
  by (induction k) (auto split: if_splits simp: less_Suc_eq)

lemma scan_down_Some:
  "scan_down cs n0 k = Some i \<Longrightarrow> k \<le> length cs \<Longrightarrow>
     n0 \<le> i \<and> i < k \<and> has_function_response (cs ! i)
     \<and> (\<forall>j. i < j \<and> j < k \<longrightarrow> \<not> has_function_response (cs ! j))"
  by (induction k) (auto split: if_splits simp: less_Suc_eq)

lemma replace_from_length: "length (replace_from keep i cs) = length cs"
  by (induction cs arbitrary: i) auto

lemma replace_from_nth:
  "k < length cs \<Longrightarrow> replace_from keep i cs ! k = (if Some (i + k) = keep then cs ! k else blank_tool_results (cs ! k))"
  by (induction cs arbitrary: i k) (auto simp: nth_Cons split: nat.splits)

lemma list_ex_drop: "list_ex P (drop k cs) \<longleftrightarrow> (\<exists>j. k \<le> j \<and> j < length cs \<and> P (cs ! j))"
proof
  assume "list_ex P (drop k cs)"
  then obtain n where n: "n < length cs - k" "P (cs ! (k + n))"
    by (auto simp: list_ex_length)
  then have "k \<le> k + n \<and> k + n < length cs \<and> P (cs ! (k + n))" by simp
  then show "\<exists>j. k \<le> j \<and> j < length cs \<and> P (cs ! j)" by blast
next
  assume "\<exists>j. k \<le> j \<and> j < length cs \<and> P (cs ! j)"
  then obtain j where j: "k \<le> j" "j < length cs" "P (cs ! j)" by blast
  then have "j - k < length (drop k cs)" "P (drop k cs ! (j - k))" by auto
  then show "list_ex P (drop k cs)" unfolding list_ex_length by blast
qed

lemma last_index_iff:
  "last_function_response_index cs n0 = Some i \<longleftrightarrow> most_recent_tool_result cs n0 i"
proof
  assume "last_function_response_index cs n0 = Some i"
  from scan_down_Some [OF this [unfolded last_function_response_index_def]]
  show "most_recent_tool_result cs n0 i"
    by (auto simp: most_recent_tool_result_def list_ex_drop)
next
  assume m: "most_recent_tool_result cs n0 i"
  show "last_function_response_index cs n0 = Some i"
  proof (cases "scan_down cs n0 (length cs)")
    case None
    from scan_down_None [OF None, of i] m show ?thesis
      by (auto simp: most_recent_tool_result_def)
  next
    case (Some j)
    from scan_down_Some [OF Some] have j: "n0 \<le> j" "j < length cs" "has_function_response (cs ! j)"
      "\<forall>k. j < k \<and> k < length cs \<longrightarrow> \<not> has_function_response (cs ! k)" by auto
    from m have i: "n0 \<le> i" "i < length cs" "has_function_response (cs ! i)"
      "\<forall>k. i < k \<and> k < length cs \<longrightarrow> \<not> has_function_response (cs ! k)"
      by (auto simp: most_recent_tool_result_def list_ex_drop)
    have "i = j" using i j by (meson linorder_neqE_nat)
    with Some show ?thesis by (simp add: last_function_response_index_def)
  qed
qed

lemma replace_old_nth:
  assumes "n0 \<le> i" "i < length cs"
  shows "replace_old_tool_results cs n0 ! i =
     (if most_recent_tool_result cs n0 i then cs ! i else blank_tool_results (cs ! i))"
proof -
  let ?keep = "last_function_response_index cs n0"
  have "replace_old_tool_results cs n0 ! i = replace_from ?keep n0 (drop n0 cs) ! (i - n0)"
    using assms by (simp add: replace_old_tool_results_def Let_def nth_append)
  also have "\<dots> = (if Some (n0 + (i - n0)) = ?keep then drop n0 cs ! (i - n0)
                     else blank_tool_results (drop n0 cs ! (i - n0)))"
    using assms by (intro replace_from_nth) simp
  also have "\<dots> = (if most_recent_tool_result cs n0 i then cs ! i else blank_tool_results (cs ! i))"
    using assms last_index_iff [of cs n0 i] by auto
  finally show ?thesis .
qed

lemma replace_old_take: "take n0 (replace_old_tool_results cs n0) = take n0 cs"
  by (cases "n0 \<le> length cs") (simp_all add: replace_old_tool_results_def Let_def)

lemma replace_old_length: "length (replace_old_tool_results cs n0) = length cs"
  by (simp add: replace_old_tool_results_def Let_def replace_from_length)

lemma payload_blank_part: "set (part_payload (blank_part p)) \<subseteq> {Some placeholder_response}"
  by (cases p) (auto split: option.splits)

lemma payload_blank_part_nonempty: "is_function_response_part p \<Longrightarrow> part_payload (blank_part p) \<noteq> []"
  by (cases p) (auto split: option.splits)

lemma payloads_blank:
  assumes "has_function_response c"
  shows "tool_payloads (blank_tool_results c) \<noteq> []
     \<and> set (tool_payloads (blank_tool_results c)) \<subseteq> {Some placeholder_response}"
proof (cases c)
  case (Content r ps)
  with assms obtain xs where xs: "ps = Some xs" "r = Some ''user''" "list_ex is_function_response_part xs"
    by (cases ps) (auto simp: get_parts_def)
  then obtain x where x: "x \<in> set xs" "is_function_response_part x"
    by (auto simp: list_ex_iff)
  have "tool_payloads (blank_tool_results c) = concat (map (\<lambda>p. part_payload (blank_part p)) xs)"
    using Content xs by (simp add: get_parts_def comp_def)
  moreover have "part_payload (blank_part x) \<noteq> []"
    using x payload_blank_part_nonempty by blast
  ultimately show ?thesis using x payload_blank_part by fastforce
next
  case (NonDictContent j)
  with assms show ?thesis by simp
qed

text \<open>
  C4: \<open>_replace_old_tool_results\<close> keeps the length of the conversation and leaves every
  message at an index below \<open>n0\<close> as it was; of the tool-result messages at or after
  \<open>n0\<close>, the most recent one is left as it was and every other one has the payload of
  each of its tool results replaced by the fixed placeholder.
\<close>

theorem C4_history_rewriting:
  "take n0 (replace_old_tool_results cs n0) = take n0 cs
   \<and> length (replace_old_tool_results cs n0) = length cs
   \<and> (\<forall>i. i < n0 \<and> i < length cs \<longrightarrow> replace_old_tool_results cs n0 ! i = cs ! i)
   \<and> (\<forall>i. n0 \<le> i \<and> i < length cs \<and> has_function_response (cs ! i) \<longrightarrow>
         (if most_recent_tool_result cs n0 i
          then replace_old_tool_results cs n0 ! i = cs ! i
          else replace_old_tool_results cs n0 ! i = blank_tool_results (cs ! i)
               \<and> tool_payloads (replace_old_tool_results cs n0 ! i) \<noteq> []
               \<and> (\<forall>p \<in> set (tool_payloads (replace_old_tool_results cs n0 ! i)).
                     p = Some placeholder_response)))"
proof -
  have pre: "\<forall>i. i < n0 \<and> i < length cs \<longrightarrow> replace_old_tool_results cs n0 ! i = cs ! i"
    by (simp add: replace_old_tool_results_def Let_def nth_append)
  have post: "\<forall>i. n0 \<le> i \<and> i < length cs \<and> has_function_response (cs ! i) \<longrightarrow>
         (if most_recent_tool_result cs n0 i
          then replace_old_tool_results cs n0 ! i = cs ! i
          else replace_old_tool_results cs n0 ! i = blank_tool_results (cs ! i)
               \<and> tool_payloads (replace_old_tool_results cs n0 ! i) \<noteq> []
               \<and> (\<forall>p \<in> set (tool_payloads (replace_old_tool_results cs n0 ! i)).
                     p = Some placeholder_response))"
    using payloads_blank by (auto simp: replace_old_nth)
  show ?thesis using pre post replace_old_take replace_old_length by blast
qed

theorem C4_history_rewriting_witness:
  "(2 < length history_example \<and> has_function_response (history_example ! 3)
      \<and> \<not> most_recent_tool_result history_example 2 3
      \<and> tool_payloads (replace_old_tool_results history_example 2 ! 3) = [Some placeholder_response])
   \<and> (most_recent_tool_result history_example 2 5
      \<and> replace_old_tool_results history_example 2 ! 5 = history_example ! 5)
   \<and> replace_old_tool_results history_example 2 ! 0 = tool_result ''old'' ''r0''"
  using C4_history_rewriting [of 2 history_example]
  by (simp add: history_example_def tool_result_def user_text_def model_call_def
      most_recent_tool_result_def replace_old_tool_results_def last_function_response_index_def
      get_parts_def numeral_3_eq_3 numeral_2_eq_2 eval_nat_numeral)

subsection \<open>C3: retry of internal calls\<close>








subsection \<open>The loop of \<open>process_request\<close>: unfolding, proof rule, retries\<close>

lemma process_loop_cap:
  "\<not> iteration s < m \<Longrightarrow> process_loop e x c n0 m s = (Final max_iterations_reply, s)"
  by (subst process_loop.simps) simp

lemma process_loop_return:
  "iteration s < m \<Longrightarrow> loop_body e x c n0 s = (Some r, s') \<Longrightarrow>
     process_loop e x c n0 m s = (r, s')"
  by (subst process_loop.simps) simp

lemma process_loop_continue:
  "iteration s < m \<Longrightarrow> loop_body e x c n0 s = (None, s') \<Longrightarrow>
     process_loop e x c n0 m s
       = process_loop e x c n0 m (s'\<lparr>iteration := iteration s + 1\<rparr>)"
  by (subst process_loop.simps) simp

text \<open>
  The proof rule of the loop: an invariant \<open>P\<close> of the state at the head of the loop,
  kept by a pass that continues, gives \<open>Q\<close> for whatever the loop returns.
\<close>

lemma process_loop_rule:
  assumes "P s"
    and "\<And>s s'. P s \<Longrightarrow> iteration s < m \<Longrightarrow> loop_body e x c n0 s = (None, s') \<Longrightarrow>
           P (s'\<lparr>iteration := iteration s + 1\<rparr>)"
    and "\<And>s r s'. P s \<Longrightarrow> iteration s < m \<Longrightarrow> loop_body e x c n0 s = (Some r, s') \<Longrightarrow>
           Q r s'"
    and "\<And>s. P s \<Longrightarrow> \<not> iteration s < m \<Longrightarrow> Q (Final max_iterations_reply) s"
  shows "Q (fst (process_loop e x c n0 m s)) (snd (process_loop e x c n0 m s))"
  using assms
proof (induction e x c n0 m s rule: process_loop.induct)
  case (1 e x c n0 m s)
  note inv = "1.prems"(1) and continue = "1.prems"(2) and return = "1.prems"(3)
    and cap = "1.prems"(4)
  show ?case
  proof (cases "iteration s < m")
    case False
    from cap [OF inv False] show ?thesis
      unfolding process_loop_cap [OF False, of e x c n0] by simp
  next
    case True
    obtain ro s' where b: "loop_body e x c n0 s = (ro, s')" by (cases "loop_body e x c n0 s")
    show ?thesis
    proof (cases ro)
      case None
      from continue [OF inv True b [unfolded None]]
      have "P (s'\<lparr>iteration := iteration s + 1\<rparr>)" .
      from "1.IH" [OF True b [symmetric] None this continue return cap]
      show ?thesis
        unfolding process_loop_continue [OF True b [unfolded None]] .
    next
      case (Some r)
      from return [OF inv True b [unfolded Some]]
      show ?thesis
        unfolding process_loop_return [OF True b [unfolded Some]] by simp
    qed
  qed
qed


lemma retry_loop_eq:
  "retry_loop e cs ts d k r s =
     ((if retries_done e (calls s) k = 0 then Returned r
       else upstream e (calls s + retries_done e (calls s) k - 1)),
      s\<lparr>calls := calls s + retries_done e (calls s) k,
        log := log s @ concat (replicate (retries_done e (calls s) k) [Sleep d, Request cs ts])\<rparr>)"
proof (induction k arbitrary: r s)
  case 0
  show ?case by simp
next
  case (Suc k)
  show ?case
  proof (cases "upstream e (calls s)")
    case (Returned r0)
    then show ?thesis
      by (simp add: make_gemini_request_def Suc.IH)
  next
    case (RaisesTimeout x)
    then show ?thesis by (simp add: make_gemini_request_def)
  next
    case (RaisesRequestException x)
    then show ?thesis by (simp add: make_gemini_request_def)
  qed
qed



lemma request_with_retry_eq:
  "make_gemini_request_with_retry e cs ts b s =
     (upstream e (calls s + request_retries e b (calls s)),
      s\<lparr>calls := calls s + Suc (request_retries e b (calls s)),
        log := log s @ Request cs ts
               # concat (replicate (request_retries e b (calls s))
                          [Sleep (retry_delay_of e), Request cs ts])\<rparr>)"
proof (cases "upstream e (calls s)")
  case (Returned r)
  show ?thesis
  proof (cases "b \<and> status_code r \<noteq> 200")
    case True
    then show ?thesis
      using Returned
      by (auto simp: make_gemini_request_with_retry_def make_gemini_request_def
          request_retries_def retry_loop_eq Let_def)
  next
    case False
    then show ?thesis
      using Returned
      by (auto simp: make_gemini_request_with_retry_def make_gemini_request_def
          request_retries_def Let_def)
  qed
next
  case (RaisesTimeout x)
  then show ?thesis
    by (simp add: make_gemini_request_with_retry_def make_gemini_request_def request_retries_def
        Let_def)
next
  case (RaisesRequestException x)
  then show ?thesis
    by (simp add: make_gemini_request_with_retry_def make_gemini_request_def request_retries_def
        Let_def)
qed






lemma execute_calls_state:
  "mcp_manager e \<noteq> None \<Longrightarrow> execute_calls e fcs s = (ps, s') \<Longrightarrow>
   s' = s\<lparr>dispatches := dispatches s + length fcs,
          log := log s @ map (\<lambda>fc. ToolCall (call_name fc) (call_args fc)) fcs\<rparr>
   \<and> length ps = length fcs"
proof (induction fcs arbitrary: s ps s')
  case Nil
  then show ?case by simp
next
  case (Cons fc fcs)
  obtain rd s1 where a: "execute_mcp_tool e (call_name fc) (call_args fc) s = (rd, s1)"
    by (cases "execute_mcp_tool e (call_name fc) (call_args fc) s")
  obtain ps2 s2 where b: "execute_calls e fcs s1 = (ps2, s2)"
    by (cases "execute_calls e fcs s1")
  from Cons.prems(1) a
  have s1: "s1 = s\<lparr>dispatches := Suc (dispatches s),
                    log := log s @ [ToolCall (call_name fc) (call_args fc)]\<rparr>"
    by (auto simp: execute_mcp_tool_def)
  from Cons.IH [OF Cons.prems(1) b]
  have s2: "s2 = s1\<lparr>dispatches := dispatches s1 + length fcs,
          log := log s1 @ map (\<lambda>fc. ToolCall (call_name fc) (call_args fc)) fcs\<rparr>"
    and l: "length ps2 = length fcs" by simp_all
  from Cons.prems(2) a b
  have r: "s' = s2" "ps = function_response_part (call_name fc) (result_or_failed rd) # ps2"
    by simp_all
  show ?case unfolding r s2 s1 using l by simp
qed

text \<open>What the part of the loop body after parsing does to the accumulators and the trace.\<close>

lemma handle_result_acc:
  assumes "handle_result e x result s = (ro, s')"
  shows "accumulated_thought_texts s' = accumulated_thought_texts s @ envelope_thoughts result
    \<and> accumulated_tool_texts s' = accumulated_tool_texts s @ envelope_placeholders e result
    \<and> calls s' = calls s \<and> iteration s' = iteration s"
proof (cases "get_candidates result")
  case Nil
  with assms show ?thesis
    by (auto simp: handle_result_def envelope_thoughts_def envelope_placeholders_def
        envelope_parts_def get_function_calls_def)
next
  case (Cons c cs)
  let ?ps = "candidate_parts c"
  let ?fcs = "get_function_calls ?ps"
  let ?s1 = "s\<lparr>accumulated_thought_texts :=
                  accumulated_thought_texts s @ concat (map thought_text ?ps)\<rparr>"
  let ?s2 = "?s1\<lparr>accumulated_tool_texts :=
                  accumulated_tool_texts ?s1 @ map (tool_call_placeholder e) ?fcs\<rparr>"
  let ?mcp = "filter (\<lambda>fc. is_mcp_tool e (call_name fc)) ?fcs"
  have env: "envelope_thoughts result = concat (map thought_text ?ps)"
    "envelope_placeholders e result = map (tool_call_placeholder e) ?fcs"
    using Cons by (simp_all add: envelope_thoughts_def envelope_placeholders_def envelope_parts_def)
  show ?thesis
  proof (cases "?fcs = []")
    case True
    with assms Cons env show ?thesis by (auto simp: handle_result_def Let_def)
  next
    case False
    show ?thesis
    proof (cases "x \<and> mcp_manager e \<noteq> None \<and> ?mcp \<noteq> []")
      case True
      obtain frs s3 where ex: "execute_calls e ?mcp
          (?s2\<lparr>contents_copy := contents_copy ?s2 @ [model_content c]\<rparr>) = (frs, s3)"
        by (cases "execute_calls e ?mcp (?s2\<lparr>contents_copy := contents_copy ?s2 @ [model_content c]\<rparr>)")
      from True execute_calls_state [OF _ ex]
      have s3: "s3 = (?s2\<lparr>contents_copy := contents_copy ?s2 @ [model_content c]\<rparr>)
                      \<lparr>dispatches := dispatches s + length ?mcp,
                       log := log s @ map (\<lambda>fc. ToolCall (call_name fc) (call_args fc)) ?mcp\<rparr>"
        by simp
      from assms Cons False True ex
      have "s' = s3\<lparr>contents_copy := contents_copy s3 @ [Content (Some ''user'') (Some frs)]\<rparr>"
        by (simp add: handle_result_def Let_def)
      then show ?thesis unfolding s3 env by simp
    next
      case nomcp: False
      with assms Cons False have "s' = ?s2"
        by (auto simp: handle_result_def Let_def)
      then show ?thesis unfolding env by simp
    qed
  qed
qed

lemma handle_result_spec:
  assumes "handle_result e x result s = (ro, s')"
  shows "(ro \<noteq> None \<longrightarrow>
            ro = Some (Final (final_or_result result s'))
            \<and> contents_copy s' = contents_copy s \<and> log s' = log s
            \<and> dispatches s' = dispatches s
            \<and> \<not> (x \<and> mcp_manager e \<noteq> None \<and> mcp_calls e result \<noteq> []))
       \<and> (ro = None \<longrightarrow>
            x \<and> mcp_manager e \<noteq> None \<and> mcp_calls e result \<noteq> []
            \<and> log s' = log s @ map tool_call_event (mcp_calls e result)
            \<and> (\<exists>mc frs. contents_copy s' = contents_copy s @ [mc, Content (Some ''user'') (Some frs)]
                  \<and> length frs = length (mcp_calls e result)))"
proof (cases "get_candidates result")
  case Nil
  with assms show ?thesis
    by (auto simp: handle_result_def mcp_calls_def envelope_calls_def envelope_parts_def
        get_function_calls_def)
next
  case (Cons c cs)
  let ?ps = "candidate_parts c"
  let ?fcs = "get_function_calls ?ps"
  let ?s1 = "s\<lparr>accumulated_thought_texts :=
                  accumulated_thought_texts s @ concat (map thought_text ?ps)\<rparr>"
  let ?s2 = "?s1\<lparr>accumulated_tool_texts :=
                  accumulated_tool_texts ?s1 @ map (tool_call_placeholder e) ?fcs\<rparr>"
  let ?mcp = "filter (\<lambda>fc. is_mcp_tool e (call_name fc)) ?fcs"
  have env: "mcp_calls e result = ?mcp" "envelope_calls result = ?fcs"
    using Cons by (simp_all add: mcp_calls_def envelope_calls_def envelope_parts_def)
  show ?thesis
  proof (cases "?fcs = []")
    case True
    with assms Cons env show ?thesis by (auto simp: handle_result_def Let_def)
  next
    case False
    show ?thesis
    proof (cases "x \<and> mcp_manager e \<noteq> None \<and> ?mcp \<noteq> []")
      case True
      obtain frs s3 where ex: "execute_calls e ?mcp
          (?s2\<lparr>contents_copy := contents_copy ?s2 @ [model_content c]\<rparr>) = (frs, s3)"
        by (cases "execute_calls e ?mcp (?s2\<lparr>contents_copy := contents_copy ?s2 @ [model_content c]\<rparr>)")
      from True execute_calls_state [OF _ ex]
      have s3: "s3 = (?s2\<lparr>contents_copy := contents_copy ?s2 @ [model_content c]\<rparr>)
                      \<lparr>dispatches := dispatches s + length ?mcp,
                       log := log s @ map (\<lambda>fc. ToolCall (call_name fc) (call_args fc)) ?mcp\<rparr>"
        and len: "length frs = length ?mcp"
        by simp_all
      from assms Cons False True ex
      have r: "ro = None"
        "s' = s3\<lparr>contents_copy := contents_copy s3 @ [Content (Some ''user'') (Some frs)]\<rparr>"
        by (simp_all add: handle_result_def Let_def)
      have "contents_copy s' = contents_copy s @ [model_content c, Content (Some ''user'') (Some frs)]"
        unfolding r s3 by simp
      moreover have "log s' = log s @ map tool_call_event ?mcp"
        unfolding r s3 by (simp add: tool_call_event_def [abs_def])
      ultimately show ?thesis using r(1) True len unfolding env by blast
    next
      case nomcp: False
      with assms Cons False have r: "s' = ?s2"
        "ro = Some (Final (build_final_response_with_accumulated_thoughts result
                (accumulated_thought_texts ?s2) (accumulated_tool_texts ?s2)))"
        by (auto simp: handle_result_def Let_def)
      have "final_or_result result ?s2 = build_final_response_with_accumulated_thoughts result
                (accumulated_thought_texts ?s2) (accumulated_tool_texts ?s2)"
        using False by (simp add: final_or_result_def)
      with r nomcp show ?thesis unfolding env by simp
    qed
  qed
qed

lemma loop_body_spec:
  assumes "loop_body e x c n0 s = (ro, s')"
  shows "calls s' = calls s + Suc (pass_retries e s) \<and> iteration s' = iteration s
    \<and> accumulated_thought_texts s'
        = accumulated_thought_texts s @ concat (map envelope_thoughts (ok_envelope (pass_outcome e s)))
    \<and> accumulated_tool_texts s'
        = accumulated_tool_texts s
          @ concat (map (envelope_placeholders e) (ok_envelope (pass_outcome e s)))
    \<and> log s' = log s
        @ Request (replace_old_tool_results (contents_copy s) n0) c
          # concat (replicate (pass_retries e s)
              [Sleep (retry_delay_of e), Request (replace_old_tool_results (contents_copy s) n0) c])
        @ (if ro = None
           then concat (map (\<lambda>r. map tool_call_event (mcp_calls e r)) (ok_envelope (pass_outcome e s)))
           else [])
    \<and> (ro = None \<longrightarrow> (\<exists>result. ok_envelope (pass_outcome e s) = [result]
            \<and> x \<and> mcp_manager e \<noteq> None \<and> mcp_calls e result \<noteq> [])
          \<and> (\<exists>mc frs. contents_copy s' = replace_old_tool_results (contents_copy s) n0
                  @ [mc, Content (Some ''user'') (Some frs)]))
    \<and> (ro \<noteq> None \<longrightarrow> contents_copy s' = replace_old_tool_results (contents_copy s) n0
          \<and> dispatches s' = dispatches s)
    \<and> (\<forall>res. ro = Some (Final res) \<longrightarrow> (\<exists>result. ok_envelope (pass_outcome e s) = [result]
            \<and> res = final_or_result result s'
            \<and> \<not> (x \<and> mcp_manager e \<noteq> None \<and> mcp_calls e result \<noteq> [])))"
proof -
  let ?cs = "replace_old_tool_results (contents_copy s) n0"
  let ?n = "pass_retries e s"
  let ?s1 = "s\<lparr>contents_copy := ?cs, calls := calls s + Suc ?n,
               log := log s @ Request ?cs c
                 # concat (replicate ?n [Sleep (retry_delay_of e), Request ?cs c])\<rparr>"
  have req: "make_gemini_request_with_retry e (contents_copy (s\<lparr>contents_copy := ?cs\<rparr>)) c
               (0 < iteration (s\<lparr>contents_copy := ?cs\<rparr>)) (s\<lparr>contents_copy := ?cs\<rparr>)
             = (pass_outcome e s, ?s1)"
    by (simp add: request_with_retry_eq pass_retries_def pass_outcome_def)
  show ?thesis
  proof (cases "pass_outcome e s")
    case (RaisesTimeout m)
    with assms req have "ro = Some (Failed 504 (RequestTimeout m))" "s' = ?s1"
      by (simp_all add: loop_body_def Let_def)
    then show ?thesis using RaisesTimeout by (simp add: ok_envelope_def)
  next
    case (RaisesRequestException m)
    with assms req have "ro = Some (Failed 503 (RequestFailed m))" "s' = ?s1"
      by (simp_all add: loop_body_def Let_def)
    then show ?thesis using RaisesRequestException by (simp add: ok_envelope_def)
  next
    case (Returned r)
    show ?thesis
    proof (cases "status_code r = 200")
      case False
      with assms req Returned
      have "ro = Some (Failed (status_code r)
                (case json_body r of None \<Rightarrow> UpstreamText (resp_text r) | Some j \<Rightarrow> UpstreamJson j))"
        "s' = ?s1"
        by (simp_all add: loop_body_def Let_def)
      then show ?thesis using Returned False by (simp add: ok_envelope_def)
    next
      case True
      show ?thesis
      proof (cases "json_body r")
        case None
        with assms req Returned True have "ro = Some RaisesJSONDecodeError" "s' = ?s1"
          by (simp_all add: loop_body_def Let_def)
        then show ?thesis using Returned True None by (simp add: ok_envelope_def)
      next
        case (Some result)
        with assms req Returned True have h: "handle_result e x result ?s1 = (ro, s')"
          by (simp add: loop_body_def Let_def)
        have ok: "ok_envelope (pass_outcome e s) = [result]"
          using Returned True Some by (simp add: ok_envelope_def)
        from handle_result_acc [OF h] handle_result_spec [OF h]
        show ?thesis unfolding ok by (cases ro) auto
      qed
    qed
  qed
qed

subsection \<open>What the engine dispatches\<close>








subsection \<open>C6: a tool call to a name that is not registered\<close>




subsection \<open>C1: the reasoning block of the final reply\<close>












subsection \<open>The loop of the DeepSeek engine\<close>

lemma ds_process_loop_cap:
  "\<not> ds_iteration s < ds_max_iterations \<Longrightarrow>
     ds_process_loop e x c s = (ds_max_iterations_reply s, s)"
  by (subst ds_process_loop.simps) simp

lemma ds_process_loop_return:
  "ds_iteration s < ds_max_iterations \<Longrightarrow> ds_loop_body e x c s = (Some r, s') \<Longrightarrow>
     ds_process_loop e x c s = (r, s')"
  by (subst ds_process_loop.simps) simp

lemma ds_process_loop_continue:
  "ds_iteration s < ds_max_iterations \<Longrightarrow> ds_loop_body e x c s = (None, s') \<Longrightarrow>
     ds_process_loop e x c s = ds_process_loop e x c (s'\<lparr>ds_iteration := ds_iteration s + 1\<rparr>)"
  by (subst ds_process_loop.simps) simp

lemma ds_process_loop_rule:
  assumes "P s"
    and "\<And>s s'. P s \<Longrightarrow> ds_iteration s < ds_max_iterations \<Longrightarrow>
           ds_loop_body e x c s = (None, s') \<Longrightarrow> P (s'\<lparr>ds_iteration := ds_iteration s + 1\<rparr>)"
    and "\<And>s r s'. P s \<Longrightarrow> ds_iteration s < ds_max_iterations \<Longrightarrow>
           ds_loop_body e x c s = (Some r, s') \<Longrightarrow> Q r s'"
    and "\<And>s. P s \<Longrightarrow> \<not> ds_iteration s < ds_max_iterations \<Longrightarrow> Q (ds_max_iterations_reply s) s"
  shows "Q (fst (ds_process_loop e x c s)) (snd (ds_process_loop e x c s))"
  using assms
proof (induction e x c s rule: ds_process_loop.induct)
  case (1 e x c s)
  note inv = "1.prems"(1) and continue = "1.prems"(2) and return = "1.prems"(3)
    and cap = "1.prems"(4)
  show ?case
  proof (cases "ds_iteration s < ds_max_iterations")
    case False
    from cap [OF inv False] show ?thesis
      unfolding ds_process_loop_cap [OF False, of e x c] by simp
  next
    case True
    obtain ro s' where b: "ds_loop_body e x c s = (ro, s')" by (cases "ds_loop_body e x c s")
    show ?thesis
    proof (cases ro)
      case None
      from continue [OF inv True b [unfolded None]]
      have "P (s'\<lparr>ds_iteration := ds_iteration s + 1\<rparr>)" .
      from "1.IH" [OF True b [symmetric] None this continue return cap]
      show ?thesis
        unfolding ds_process_loop_continue [OF True b [unfolded None]] .
    next
      case (Some r)
      from return [OF inv True b [unfolded Some]]
      show ?thesis
        unfolding ds_process_loop_return [OF True b [unfolded Some]] by simp
    qed
  qed
qed

lemma ds_execute_calls_trace:
  "ds_execute_calls e tcs s = (ex, s') \<Longrightarrow>
     ds_iteration s' = ds_iteration s
     \<and> ds_upstream_calls (ds_log s') = ds_upstream_calls (ds_log s)
     \<and> ds_tools_sent (ds_log s') = ds_tools_sent (ds_log s)"
proof (induction tcs arbitrary: s)
  case Nil
  then show ?case by simp
next
  case (Cons tc tcs)
  show ?case
  proof (cases "if tc_arguments tc = [] then Some (JDict []) else ds_json_loads e (tc_arguments tc)")
    case None
    with Cons.prems show ?thesis by (simp split: if_splits)
  next
    case (Some a)
    obtain result s1 where r: "(case ds_manager e of
                   None \<Rightarrow> (None, s)
                 | Some m \<Rightarrow>
                     (call_tool (ds_dumps_content e) m (ds_dispatches s) (tc_name tc) a,
                      s\<lparr>ds_dispatches := Suc (ds_dispatches s),
                        ds_log := ds_log s @ [DSToolCall (tc_name tc) a]\<rparr>)) = (result, s1)"
      by (cases "ds_manager e") auto
    then have s1: "ds_iteration s1 = ds_iteration s"
      "ds_upstream_calls (ds_log s1) = ds_upstream_calls (ds_log s)"
      "ds_tools_sent (ds_log s1) = ds_tools_sent (ds_log s)"
      by (auto simp: ds_upstream_calls_def ds_tools_sent_def split: option.splits)
    from Cons.prems Some r
    have "ds_execute_calls e tcs
            (s1\<lparr>messages_copy := messages_copy s1 @
                   [\<lparr>dm_role = ''tool'', dm_content = Some (result_or_failed result),
                     dm_reasoning_content = None, dm_tool_calls = None,
                     dm_tool_call_id = Some (tc_id tc)\<rparr>]\<rparr>) = (ex, s')"
      by (simp split: if_splits)
    from Cons.IH [OF this] s1 show ?thesis by simp
  qed
qed

lemma ds_loop_body_trace:
  assumes "ds_loop_body e x c s = (ro, s')"
  shows "ds_iteration s' = ds_iteration s
     \<and> ds_upstream_calls (ds_log s') = Suc (ds_upstream_calls (ds_log s))
     \<and> ds_tools_sent (ds_log s') = ds_tools_sent (ds_log s) @ [c]"
proof (cases "ds_upstream e (ds_calls s)")
  case (RaisesAPIError m)
  with assms show ?thesis
    by (auto simp: ds_loop_body_def ds_upstream_calls_def ds_tools_sent_def)
next
  case (Completed response)
  let ?s1 = "s\<lparr>ds_calls := Suc (ds_calls s),
                 ds_log := ds_log s @ [ChatRequest (messages_copy s) c]\<rparr>"
  let ?s2 = "?s1\<lparr>total_usage := add_usage (total_usage ?s1) (usage response)\<rparr>"
  let ?nr = "case cm_reasoning_content (choice_message response) of None \<Rightarrow> [] | Some r \<Rightarrow> r"
  let ?nc = "case cm_content (choice_message response) of None \<Rightarrow> [] | Some c \<Rightarrow> c"
  let ?s3 = "if ds_iteration ?s2 = 0
             then ?s2\<lparr>messages_copy := messages_copy ?s2 @ [message_to_dict (choice_message response)],
                     assistant_msg_index := Some (length (messages_copy ?s2))\<rparr>
             else ?s2\<lparr>messages_copy :=
                       merge_assistant_message e (messages_copy ?s2) (assistant_msg_index ?s2)
                         ?nr ?nc (cm_tool_calls (choice_message response))\<rparr>"
  have s3: "ds_iteration ?s3 = ds_iteration s"
    "ds_upstream_calls (ds_log ?s3) = Suc (ds_upstream_calls (ds_log s))"
    "ds_tools_sent (ds_log ?s3) = ds_tools_sent (ds_log s) @ [c]"
    by (simp_all add: ds_upstream_calls_def ds_tools_sent_def)
  have "s' = ?s3 \<or> (\<exists>tcs ex. ds_execute_calls e tcs ?s3 = (ex, s'))"
    using assms Completed
    by (auto simp: ds_loop_body_def Let_def split: option.splits if_splits prod.splits)
  then show ?thesis
  proof
    assume "s' = ?s3"
    with s3 show ?thesis by simp
  next
    assume "\<exists>tcs ex. ds_execute_calls e tcs ?s3 = (ex, s')"
    then obtain tcs ex where "ds_execute_calls e tcs ?s3 = (ex, s')" by blast
    from ds_execute_calls_trace [OF this] s3 show ?thesis by simp
  qed
qed

subsection \<open>Counting upstream calls\<close>











subsection \<open>C2: the iteration cap\<close>







subsection \<open>C5: the tool list sent upstream\<close>

lemma tools_sent_append: "tools_sent (xs @ ys) = tools_sent xs @ tools_sent ys"
  by (simp add: tools_sent_def)

lemma tools_sent_retries:
  "tools_sent (concat (replicate n [Sleep d, Request cs ts])) = replicate n ts"
  by (induction n) (simp_all add: tools_sent_def)

lemma tools_sent_tool_calls: "tools_sent (map tool_call_event fcs) = []"
  by (induction fcs) (simp_all add: tools_sent_def tool_call_event_def)

lemma tools_sent_Cons: "tools_sent (ev # evs) = requested_tools ev @ tools_sent evs"
  by (simp add: tools_sent_def)

lemma loop_body_tools_sent:
  assumes lb: "loop_body e x c n0 s = (ro, s')"
  shows "tools_sent (log s') = tools_sent (log s) @ replicate (Suc (pass_retries e s)) c"
proof -
  let ?cs = "replace_old_tool_results (contents_copy s) n0"
  let ?tail = "if ro = None
           then concat (map (\<lambda>r. map tool_call_event (mcp_calls e r)) (ok_envelope (pass_outcome e s)))
           else []"
  from loop_body_spec [OF lb]
  have l: "log s' = log s @ Request ?cs c
          # concat (replicate (pass_retries e s) [Sleep (retry_delay_of e), Request ?cs c]) @ ?tail"
    by blast
  have "\<exists>fcs. ?tail = map tool_call_event fcs"
    by (cases "pass_outcome e s")
       (auto simp: ok_envelope_def intro: exI [of _ "[]"] split: option.splits)
  then obtain fcs where t: "?tail = map tool_call_event fcs" by blast
  show ?thesis
    unfolding l t
    by (simp add: tools_sent_append tools_sent_Cons tools_sent_retries tools_sent_tool_calls)
qed

lemma process_request_tools_sent:
  "list_all (\<lambda>t. t = combined_tools (mcp_manager e) ts)
     (tools_sent (log (snd (process_request e contents ts x))))"
proof -
  let ?c = "combined_tools (mcp_manager e) ts"
  let ?P = "\<lambda>s. list_all (\<lambda>t. t = ?c) (tools_sent (log s))"
  have "?P (snd (process_loop e x ?c (length contents) (max_iterations_of e) (init_state contents)))"
  proof (rule process_loop_rule [where P = ?P and Q = "\<lambda>r. ?P"])
    show "?P (init_state contents)" by (simp add: init_state_def tools_sent_def)
  next
    fix s s'
    assume "?P s" and "loop_body e x ?c (length contents) s = (None, s')"
    with loop_body_tools_sent [of e x ?c "length contents" s None s']
    show "?P (s'\<lparr>iteration := iteration s + 1\<rparr>)" by (auto simp: list_all_iff)
  next
    fix s r s'
    assume "?P s" and "loop_body e x ?c (length contents) s = (Some r, s')"
    with loop_body_tools_sent [of e x ?c "length contents" s "Some r" s']
    show "?P s'" by (auto simp: list_all_iff)
  qed simp
  then show ?thesis by (simp add: process_request_def)
qed

lemma ds_process_request_tools_sent:
  "list_all (\<lambda>t. t = ds_combined_tools (ds_manager e) ts)
     (ds_tools_sent (ds_log (snd (ds_process_request e messages ts x))))"
proof -
  let ?c = "ds_combined_tools (ds_manager e) ts"
  let ?P = "\<lambda>s. list_all (\<lambda>t. t = ?c) (ds_tools_sent (ds_log s))"
  have "?P (snd (ds_process_loop e x ?c (ds_init_state messages)))"
  proof (rule ds_process_loop_rule [where P = ?P and Q = "\<lambda>r. ?P"])
    show "?P (ds_init_state messages)" by (simp add: ds_init_state_def ds_tools_sent_def)
  next
    fix s s'
    assume "?P s" and "ds_loop_body e x ?c s = (None, s')"
    with ds_loop_body_trace [of e x ?c s None s']
    show "?P (s'\<lparr>ds_iteration := ds_iteration s + 1\<rparr>)" by simp
  next
    fix s r s'
    assume "?P s" and "ds_loop_body e x ?c s = (Some r, s')"
    with ds_loop_body_trace [of e x ?c s "Some r" s']
    show "?P s'" by simp
  qed simp
  then show ?thesis by (simp add: ds_process_request_def)
qed

lemma gemini_combined_names:
  "gemini_tool_names (combined_tools m ts) = gemini_tool_names ts @ manager_tool_names m"
  by (cases m; cases ts)
     (auto simp: combined_tools_def gemini_tool_names_def manager_tool_names_def
        get_mcp_tools_as_gemini_format_def tool_declaration_def Let_def comp_def
        split_beta)

lemma openai_combined_names:
  "openai_tool_names (ds_combined_tools m ts) = openai_tool_names ts @ manager_tool_names m"
  by (cases m; cases ts)
     (auto simp: ds_combined_tools_def openai_tool_names_def manager_tool_names_def
        get_openai_tools_def Let_def comp_def split_beta)

text \<open>
  C5, as stated, fails: when the client declares a tool \<open>s_t\<close> and the manager has
  registered a tool under the same qualified name, the first request of the DeepSeek
  engine carries both declarations, the client's and the manager's, so the names sent
  are not free of duplicates.
\<close>

theorem C5_counterexample:
  "map (openai_tool_names)
     (take 1 (ds_tools_sent (ds_log (snd (ds_process_request ds_looping_engine
        [user_message ''hi''] (Some [client_tool]) True)))))
     = [[''s_t'', ''s_t'']]
   \<and> \<not> distinct [''s_t'', ''s_t'']"
  by code_simp

text \<open>
  C5, amended: every upstream call of either engine carries the same tool list, the
  client-supplied declarations followed by one declaration for each tool the manager
  has registered (no list at all when both are empty). Nothing is removed from it: the
  names sent are the client's names followed by the manager's, so a client name that
  collides with a qualified name of the manager is sent twice.
\<close>

theorem C5_tools_sent:
  "list_all (\<lambda>t. t = combined_tools (mcp_manager e) ts)
     (tools_sent (log (snd (process_request e contents ts x))))
   \<and> gemini_tool_names (combined_tools (mcp_manager e) ts)
       = gemini_tool_names ts @ manager_tool_names (mcp_manager e)
   \<and> list_all (\<lambda>t. t = ds_combined_tools (ds_manager de) dts)
       (ds_tools_sent (ds_log (snd (ds_process_request de messages dts dx))))
   \<and> openai_tool_names (ds_combined_tools (ds_manager de) dts)
       = openai_tool_names dts @ manager_tool_names (ds_manager de)"
  using process_request_tools_sent [of e ts contents x] gemini_combined_names [of "mcp_manager e" ts]
    ds_process_request_tools_sent [of de dts messages dx]
    openai_combined_names [of "ds_manager de" dts]
  by simp

theorem C5_tools_sent_witness:
  "tools_sent (log (snd (process_request example_engine [user_text ''hi''] (Some [client_group]) True)))
     = [combined_tools (Some example_manager) (Some [client_group]),
        combined_tools (Some example_manager) (Some [client_group])]
   \<and> gemini_tool_names (combined_tools (Some example_manager) (Some [client_group]))
     = [''s_t'', ''s_t'']
   \<and> openai_tool_names (ds_combined_tools (Some example_manager) (Some [client_tool]))
     = [''s_t'', ''s_t'']"
proof -
  have h1: "tools_sent (log (snd (process_request example_engine [user_text ''hi'']
               (Some [client_group]) True)))
     = [combined_tools (Some example_manager) (Some [client_group]),
        combined_tools (Some example_manager) (Some [client_group])]"
    by code_simp
  have h2: "gemini_tool_names (Some [client_group]) = [''s_t'']"
    "openai_tool_names (Some [client_tool]) = [''s_t'']"
    "manager_tool_names (Some example_manager) = [''s_t'']"
    by code_simp+
  have h3: "mcp_manager example_engine = Some example_manager"
    "ds_manager ds_looping_engine = Some example_manager"
    by (simp_all add: example_engine_def ds_looping_engine_def)
  from C5_tools_sent [of example_engine "Some [client_group]" "[user_text ''hi'']" True
      ds_looping_engine "Some [client_tool]" "[user_message ''hi'']" True] h1 h2 h3
  show ?thesis by simp
qed

subsection \<open>C9: enabling and disabling a server\<close>

















subsection \<open>C7: descriptors with comments, descriptors that fail to parse\<close>






subsection \<open>C10: a transport type the manager does not know\<close>

lemma map_of_dict_set: "map_of (dict_set k v al) = (map_of al)(k \<mapsto> v)"
  by (induction al) auto

lemma dict_set_names:
  "map fst (dict_set k v al) = (if k \<in> fst ` set al then map fst al else map fst al @ [k])"
  by (induction al) (fastforce simp: image_iff)+

lemma dict_set_keys: "fst ` set (dict_set k v al) = insert k (fst ` set al)"
  using dict_set_names [of k v al] set_map [of fst "dict_set k v al"] set_map [of fst al]
  by (auto split: if_splits)

lemma dict_set_distinct:
  "distinct (map fst al) \<Longrightarrow> distinct (map fst (dict_set k v al))"
  by (simp add: dict_set_names)

lemma scan_distinct:
  "scan json_load en dir ds found = Inr r \<Longrightarrow> distinct (map fst found)
     \<Longrightarrow> distinct (map fst r)"
proof (induction ds arbitrary: found)
  case Nil
  then show ?case by simp
next
  case (Cons d ds)
  show ?case
  proof (cases "scan_entry json_load en dir d")
    case (Inl err)
    with Cons.prems show ?thesis by simp
  next
    case (Inr found_entry)
    show ?thesis
    proof (cases found_entry)
      case None
      with Inr Cons.prems Cons.IH [of found] show ?thesis by simp
    next
      case (Some info)
      with Inr Cons.prems have "scan json_load en dir ds (dict_set (e_name d) info found) = Inr r"
        by simp
      moreover have "distinct (map fst (dict_set (e_name d) info found))"
        using Cons.prems(2) by (rule dict_set_distinct)
      ultimately show ?thesis by (rule Cons.IH)
    qed
  qed
qed

lemma available_distinct:
  "get_available_servers json_load enabled_file dir listing = Inr avail
     \<Longrightarrow> distinct (map fst avail)"
  unfolding get_available_servers_def
  using scan_distinct [of json_load "get_enabled_servers enabled_file" dir listing "[]" avail]
  by simp

text \<open>The loop of the load leaves the names it does not meet as they are.\<close>

lemma load_servers_other:
  "name \<notin> fst ` set avail
     \<Longrightarrow> map_of (fst (snd (load_servers avail svs n))) name = map_of svs name"
proof (induction avail svs n rule: load_servers.induct)
  case (1 svs loaded_count)
  show ?case by simp
next
  case (2 nm info rest svs loaded_count)
  then show ?case
    by (auto simp: map_of_dict_set split: sum.splits)
qed

lemma load_servers_count:
  "n \<le> snd (snd (load_servers avail svs n))"
proof (induction avail svs n rule: load_servers.induct)
  case (1 svs loaded_count)
  show ?case by simp
next
  case (2 nm info rest svs loaded_count)
  then show ?case
    by (auto split: sum.splits intro: Suc_leD)
qed

lemma load_servers_distinct:
  "distinct (map fst svs) \<Longrightarrow> distinct (map fst (fst (snd (load_servers avail svs n))))"
proof (induction avail svs n rule: load_servers.induct)
  case (1 svs loaded_count)
  then show ?case by simp
next
  case (2 nm info rest svs loaded_count)
  then show ?case
    by (auto split: sum.splits simp: dict_set_distinct)
qed

lemma load_servers_stores:
  assumes "fst (load_servers avail svs n) = None"
      and "distinct (map fst avail)"
      and "map_of avail name = Some info"
      and "si_enabled info"
  shows "\<exists>cfg. server_config name info = Inr cfg
           \<and> map_of (fst (snd (load_servers avail svs n))) name = Some cfg
           \<and> n < snd (snd (load_servers avail svs n))"
  using assms
proof (induction avail svs n rule: load_servers.induct)
  case (1 svs loaded_count)
  then show ?case by simp
next
  case (2 nm inf rest svs loaded_count)
  show ?case
  proof (cases "nm = name")
    case True
    with "2.prems" have inf: "inf = info" by simp
    from "2.prems"(1,4) True inf obtain cfg where cfg: "server_config name info = Inr cfg"
      by (cases "server_config name info") auto
    from "2.prems"(2) True have "name \<notin> fst ` set rest" by auto
    then have "map_of (fst (snd (load_servers rest (dict_set name cfg svs) (Suc loaded_count)))) name
                 = Some cfg"
      by (simp add: load_servers_other map_of_dict_set)
    moreover have "Suc loaded_count
                     \<le> snd (snd (load_servers rest (dict_set name cfg svs) (Suc loaded_count)))"
      by (rule load_servers_count)
    ultimately show ?thesis using cfg True inf "2.prems"(4) by simp
  next
    case False
    with "2.prems" have m: "map_of rest name = Some info" and d: "distinct (map fst rest)"
      by auto
    show ?thesis
    proof (cases "si_enabled inf")
      case e: False
      with "2.prems"(1) have "fst (load_servers rest svs loaded_count) = None" by simp
      from "2.IH"(1) [OF e this d m "2.prems"(4)] e show ?thesis by simp
    next
      case e: True
      with "2.prems"(1) obtain c where c: "server_config nm inf = Inr c"
        by (cases "server_config nm inf") auto
      with e "2.prems"(1)
      have "fst (load_servers rest (dict_set nm c svs) (Suc loaded_count)) = None" by simp
      from "2.IH"(2) [OF _ c this d m "2.prems"(4)] e c show ?thesis by auto
    qed
  qed
qed

text \<open>What the fallback builds.\<close>

lemma server_config_fallback:
  assumes "parse_server_type (dict_get (si_config info) ''type'' (JStr ''stdio'')) = None"
      and "server_config name info = Inr cfg"
  shows "\<exists>xs. dict_get (si_config info) ''args'' (JList []) = JList xs
           \<and> cfg = \<lparr>cfg_name = name, server_type = STDIO,
                     cfg_description = dict_get (si_config info) ''description'' (JStr []),
                     enabled = True,
                     command = Some (dict_get (si_config info) ''command'' (JStr ''python'')),
                     args = Some ((case si_server_file info of None \<Rightarrow> JNull | Some f \<Rightarrow> JStr f) # xs),
                     env = map_of (si_config info) ''env'', url = None, headers = None\<rparr>"
  using assms
  by (cases "dict_get (si_config info) ''args'' (JList [])")
     (auto simp: server_config_def Let_def)

text \<open>Starting a server leaves the configurations alone and forgets no attempt.\<close>

lemma start_server_servers:
  "servers (fst (snd (start_server launch name st))) = servers (fst st)"
  by (cases st) (auto simp: start_server_def split: option.splits)

lemma start_server_started:
  "set (snd st) \<subseteq> set (snd (snd (start_server launch name st)))"
  by (cases st) (auto simp: start_server_def split: option.splits)

lemma start_server_connections:
  "fst ` set (connections (fst (snd (start_server launch name st))))
     \<subseteq> insert name (fst ` set (connections (fst st)))"
  by (cases st) (auto simp: start_server_def dict_set_keys split: option.splits)

lemma start_server_attempt:
  assumes "map_of (servers (fst st)) name = Some cfg"
      and "name \<notin> fst ` set (connections (fst st))"
  shows "cfg \<in> set (snd (snd (start_server launch name st)))"
proof -
  from assms(2) have "map_of (connections (fst st)) name = None"
    by (simp add: map_of_eq_None_iff)
  with assms(1) show ?thesis
    by (cases st) (auto simp: start_server_def split: option.splits)
qed

lemma start_each_started:
  "set (snd st) \<subseteq> set (snd (start_each launch l st))"
proof (induction l arbitrary: st)
  case Nil
  show ?case by simp
next
  case (Cons a l)
  obtain nm server where a: "a = (nm, server)" by (cases a)
  show ?case
  proof (cases "enabled server")
    case True
    have "set (snd st) \<subseteq> set (snd (snd (start_server launch nm st)))"
      by (rule start_server_started)
    also have "\<dots> \<subseteq> set (snd (start_each launch l (snd (start_server launch nm st))))"
      by (rule Cons.IH)
    finally show ?thesis using a True by simp
  next
    case False
    with a Cons.IH [of st] show ?thesis by simp
  qed
qed

lemma start_each_attempt:
  assumes "distinct (map fst l)"
      and "(name, cfg) \<in> set l"
      and "enabled cfg"
      and "map_of (servers (fst st)) name = Some cfg"
      and "name \<notin> fst ` set (connections (fst st))"
  shows "cfg \<in> set (snd (start_each launch l st))"
  using assms
proof (induction l arbitrary: st)
  case Nil
  then show ?case by simp
next
  case (Cons a l)
  obtain nm server where a: "a = (nm, server)" by (cases a)
  show ?case
  proof (cases "nm = name")
    case True
    with a Cons.prems(1,2) have s: "server = cfg"
      by (auto simp: image_iff)
    have "cfg \<in> set (snd (snd (start_server launch name st)))"
      using Cons.prems(4,5) by (rule start_server_attempt)
    moreover have "set (snd (snd (start_server launch name st)))
                     \<subseteq> set (snd (start_each launch l (snd (start_server launch name st))))"
      by (rule start_each_started)
    ultimately show ?thesis using a True s Cons.prems(3) by auto
  next
    case False
    with a Cons.prems have d: "distinct (map fst l)" and i: "(name, cfg) \<in> set l" by auto
    show ?thesis
    proof (cases "enabled server")
      case e: True
      let ?st = "snd (start_server launch nm st)"
      have "map_of (servers (fst ?st)) name = Some cfg"
        using Cons.prems(4) by (simp add: start_server_servers)
      moreover have "name \<notin> fst ` set (connections (fst ?st))"
        using start_server_connections [of launch nm st] Cons.prems(5) False by auto
      ultimately have "cfg \<in> set (snd (start_each launch l ?st))"
        using d i Cons.prems(3) Cons.IH [of ?st] by blast
      with a e show ?thesis by simp
    next
      case e: False
      from Cons.IH [OF d i Cons.prems(3,4,5)] a e show ?thesis by simp
    qed
  qed
qed

lemma start_each_servers:
  "servers (fst (start_each launch l st)) = servers (fst st)"
proof (induction l arbitrary: st)
  case Nil
  show ?case by simp
next
  case (Cons a l)
  obtain nm server where a: "a = (nm, server)" by (cases a)
  show ?case using a Cons.IH [of st] Cons.IH [of "snd (start_server launch nm st)"]
    by (simp add: start_server_servers)
qed

text \<open>The load runs to its end when no enabled descriptor makes its configuration raise.\<close>

lemma load_servers_ok:
  "\<forall>(nm, inf) \<in> set avail. si_enabled inf \<longrightarrow> server_config nm inf \<noteq> Inl ArgsTypeError
     \<Longrightarrow> fst (load_servers avail svs n) = None"
proof (induction avail svs n rule: load_servers.induct)
  case (1 svs loaded_count)
  show ?case by simp
next
  case (2 nm inf rest svs loaded_count)
  show ?case
  proof (cases "si_enabled inf")
    case False
    with 2 show ?thesis by simp
  next
    case True
    with "2.prems" have ne: "server_config nm inf \<noteq> Inl ArgsTypeError" by simp
    then obtain c where c: "server_config nm inf = Inr c"
      by (cases "server_config nm inf")
         (auto simp: server_config_def Let_def split: json.splits if_splits)
    from "2.prems" have "\<forall>(nm, inf) \<in> set rest. si_enabled inf \<longrightarrow> server_config nm inf \<noteq> Inl ArgsTypeError"
      by simp
    from "2.IH"(2) [OF _ c this] True c show ?thesis by simp
  qed
qed

text \<open>
  C10, as stated: an enabled server whose descriptor declares a transport type that is
  not known is not skipped, gets a stdio configuration and is started. Not so when the
  descriptor's \<open>args\<close> is not a list: for the directory with \<open>files\<close> (a stdio server)
  and \<open>ws\<close> (type \<open>websocket\<close>, \<open>args\<close> a string), both enabled, \<open>ws\<close> is enabled and
  its type is unknown, but the load stops at it and returns \<open>False\<close>, the manager holds
  no configuration for \<open>ws\<close>, and no server at all is started, even with tool servers
  that would start.
\<close>

theorem C10_counterexample:
  "map_of (projr (get_available_servers json_loads example_enabled_file ''mcp'' bad_args_listing))
       ''ws''
     = Some \<lparr>si_path = ''mcp/ws'', si_server_file = None, si_enabled = True,
             si_config = [(''type'', JStr ''websocket''), (''args'', JStr ''--fast'')],
             si_description = JStr [], si_type = JStr ''websocket''\<rparr>
   \<and> parse_server_type (JStr ''websocket'') = None
   \<and> fst (MCPManager_init ready_launch
          (get_available_servers json_loads example_enabled_file ''mcp'' bad_args_listing)) = False
   \<and> map fst (servers (fst (snd (MCPManager_init ready_launch
          (get_available_servers json_loads example_enabled_file ''mcp'' bad_args_listing)))))
        = [''files'']
   \<and> snd (snd (MCPManager_init ready_launch
          (get_available_servers json_loads example_enabled_file ''mcp'' bad_args_listing))) = []"
  by code_simp

text \<open>
  C10, amended: when the scan of the registry returns and no enabled descriptor makes
  the construction of its configuration raise (the \<open>args\<close> of a descriptor configured
  as stdio is a list), every enabled server whose descriptor declares a transport type
  other than \<open>stdio\<close>, \<open>streamableHttp\<close> and \<open>sse\<close> is kept: the manager stores a
  stdio configuration under its name, with the command of the descriptor (\<open>python\<close> by
  default) and the recorded server file followed by the descriptor's \<open>args\<close> as
  arguments, the load returns \<open>True\<close>, and a start of that configuration is attempted,
  whatever the tool servers do.
\<close>

theorem C10_unknown_type_fallback:
  assumes "get_available_servers json_load enabled_file dir listing = Inr avail"
      and "map_of avail name = Some info"
      and "si_enabled info"
      and "parse_server_type (dict_get (si_config info) ''type'' (JStr ''stdio'')) = None"
      and "\<forall>(nm, inf) \<in> set avail. si_enabled inf \<longrightarrow> server_config nm inf \<noteq> Inl ArgsTypeError"
  shows "\<exists>xs. dict_get (si_config info) ''args'' (JList []) = JList xs
           \<and> (let cfg = \<lparr>cfg_name = name, server_type = STDIO,
                            cfg_description = dict_get (si_config info) ''description'' (JStr []),
                            enabled = True,
                            command = Some (dict_get (si_config info) ''command'' (JStr ''python'')),
                            args = Some ((case si_server_file info of None \<Rightarrow> JNull
                                          | Some f \<Rightarrow> JStr f) # xs),
                            env = map_of (si_config info) ''env'', url = None, headers = None\<rparr>
               in case MCPManager_init launch (Inr avail) of
                    (ok, m, started) \<Rightarrow>
                      ok \<and> map_of (servers m) name = Some cfg \<and> cfg \<in> set started)"
proof -
  let ?r = "load_servers avail [] 0"
  let ?svs = "fst (snd ?r)"
  let ?m = "\<lparr>servers = ?svs, connections = [], tools = []\<rparr>"
  have d: "distinct (map fst avail)" using assms(1) by (rule available_distinct)
  have ok: "fst ?r = None" using assms(5) by (rule load_servers_ok)
  from load_servers_stores [OF ok d assms(2,3)]
  obtain cfg where cfg: "server_config name info = Inr cfg"
    and stored: "map_of ?svs name = Some cfg" and pos: "0 < snd (snd ?r)" by blast
  from server_config_fallback [OF assms(4) cfg]
  obtain xs where xs: "dict_get (si_config info) ''args'' (JList []) = JList xs"
    and shape: "cfg = \<lparr>cfg_name = name, server_type = STDIO,
                  cfg_description = dict_get (si_config info) ''description'' (JStr []),
                  enabled = True,
                  command = Some (dict_get (si_config info) ''command'' (JStr ''python'')),
                  args = Some ((case si_server_file info of None \<Rightarrow> JNull | Some f \<Rightarrow> JStr f) # xs),
                  env = map_of (si_config info) ''env'', url = None, headers = None\<rparr>"
    by blast
  have en: "enabled cfg" by (subst shape) simp
  have ds: "distinct (map fst ?svs)" by (rule load_servers_distinct) simp
  from stored have mem: "(name, cfg) \<in> set ?svs" by (rule map_of_SomeD)
  have init: "MCPManager_init launch (Inr avail) = (True, start_each launch ?svs (?m, []))"
    using ok pos
    by (cases ?r) (simp add: MCPManager_init_def load_from_directory_def start_enabled_servers_def)
  have att: "cfg \<in> set (snd (start_each launch ?svs (?m, [])))"
    by (rule start_each_attempt [OF ds mem en]) (simp_all add: stored)
  have keep: "servers (fst (start_each launch ?svs (?m, []))) = ?svs"
    by (simp add: start_each_servers)
  have fin: "case MCPManager_init launch (Inr avail) of
          (ok, m, started) \<Rightarrow> ok \<and> map_of (servers m) name = Some cfg \<and> cfg \<in> set started"
    unfolding init using att keep stored by (simp add: case_prod_beta)
  show ?thesis
    unfolding Let_def
  proof (intro exI conjI)
    show "dict_get (si_config info) ''args'' (JList []) = JList xs" by (rule xs)
    show "case MCPManager_init launch (Inr avail) of
            (ok, m, started) \<Rightarrow>
              ok \<and> map_of (servers m) name
                     = Some \<lparr>cfg_name = name, server_type = STDIO,
                         cfg_description = dict_get (si_config info) ''description'' (JStr []),
                         enabled = True,
                         command = Some (dict_get (si_config info) ''command'' (JStr ''python'')),
                         args = Some ((case si_server_file info of None \<Rightarrow> JNull
                                       | Some f \<Rightarrow> JStr f) # xs),
                         env = map_of (si_config info) ''env'', url = None, headers = None\<rparr>
                 \<and> \<lparr>cfg_name = name, server_type = STDIO,
                      cfg_description = dict_get (si_config info) ''description'' (JStr []),
                      enabled = True,
                      command = Some (dict_get (si_config info) ''command'' (JStr ''python'')),
                      args = Some ((case si_server_file info of None \<Rightarrow> JNull
                                    | Some f \<Rightarrow> JStr f) # xs),
                      env = map_of (si_config info) ''env'', url = None, headers = None\<rparr>
                    \<in> set started"
      using fin unfolding shape .
  qed
qed

theorem C10_unknown_type_fallback_witness:
  "get_available_servers json_loads example_enabled_file ''mcp'' example_listing \<noteq> Inl AttributeError
   \<and> (let r = MCPManager_init no_launch
                 (get_available_servers json_loads example_enabled_file ''mcp'' example_listing);
           cfg = \<lparr>cfg_name = ''ws'', server_type = STDIO, cfg_description = JStr [],
                   enabled = True, command = Some (JStr ''node''),
                   args = Some [JNull, JStr ''--fast''], env = None, url = None,
                   headers = None\<rparr>
       in fst r \<and> map_of (servers (fst (snd r))) ''ws'' = Some cfg \<and> cfg \<in> set (snd (snd r)))"
proof -
  let ?info = "\<lparr>si_path = ''mcp/ws'', si_server_file = None, si_enabled = True,
                 si_config = [(''type'', JStr ''websocket''), (''command'', JStr ''node''),
                              (''args'', JList [JStr ''--fast''])],
                 si_description = JStr [], si_type = JStr ''websocket''\<rparr>"
  let ?avail = "[(''files'',
                  \<lparr>si_path = ''mcp/files'', si_server_file = Some ''mcp/files/server.py'',
                     si_enabled = True, si_config = [], si_description = JStr [],
                     si_type = JStr ''stdio''\<rparr>),
                 (''ws'', ?info)]"
  have h1: "get_available_servers json_loads example_enabled_file ''mcp'' example_listing
              = Inr ?avail"
    by code_simp
  have h2: "map_of ?avail ''ws'' = Some ?info" by simp
  have h3: "si_enabled ?info" by simp
  have h4: "parse_server_type (dict_get (si_config ?info) ''type'' (JStr ''stdio'')) = None"
    by code_simp
  have h5: "\<forall>(nm, inf) \<in> set ?avail. si_enabled inf \<longrightarrow> server_config nm inf \<noteq> Inl ArgsTypeError"
    by code_simp
  from C10_unknown_type_fallback [OF h1 h2 h3 h4 h5, of no_launch]
  show ?thesis unfolding h1 by (simp add: dict_get_def Let_def case_prod_beta)
qed

end
